theory Spec2Isabelle
  imports Complex_Main "HOL-Library.Signed_Division"
begin

unbundle bit_operations_syntax

chapter \<open>The warp-specialised GDPA kernels of tritonbench\<close>

text \<open>
  A shallow embedding of \<^verbatim>\<open>tritonbench/operators/gdpa/gdpa_blackwell_tlx.py\<close>: the
  persistent tile scheduler, the counter arithmetic of the circular buffers, the
  matrix-multiply partition of the forward kernel, the elementwise activation and masking
  code, and the host side of the forward entry point. All definitions come first; the
  theorems about them follow.
\<close>

section \<open>Definitions\<close>

subsection \<open>Integer arithmetic of the device code\<close>

text \<open>
  The kernels are Triton device functions: their integers are signed machine integers,
  \<^verbatim>\<open>//\<close> is the truncating signed division, \<^verbatim>\<open>%\<close> the matching remainder and
  \<^verbatim>\<open>&\<close> the bitwise conjunction. They are modelled on \<open>int\<close> with \<open>sdiv\<close>,
  \<open>smod\<close> and \<open>AND\<close>. Counters, tile numbers and offsets are taken to fit the 32 bit
  range, so no operation below wraps.
\<close>

text \<open>\<^verbatim>\<open>tl.cdiv(x, div)\<close> is \<^verbatim>\<open>(x + div - 1) // div\<close>.\<close>

definition cdiv :: "int \<Rightarrow> int \<Rightarrow> int" where
  "cdiv x d = (x + d - 1) sdiv d"

subsection \<open>Buffer index and phase of a counter\<close>

text \<open>
  \<^verbatim>\<open>_get_bufidx_phase(accum_cnt, NUM_BUFFERS)\<close>:
  \<^verbatim>\<open>bufIdx = accum_cnt % NUM_BUFFERS; phase = (accum_cnt // NUM_BUFFERS) & 1\<close>.
\<close>

definition get_bufidx_phase :: "int \<Rightarrow> int \<Rightarrow> int \<times> int" where
  "get_bufidx_phase accum_cnt NUM_BUFFERS =
     (let bufIdx = accum_cnt smod NUM_BUFFERS;
          phase = (accum_cnt sdiv NUM_BUFFERS) AND 1
      in (bufIdx, phase))"

subsection \<open>The persistent tile scheduler\<close>

text \<open>
  The head of \<^verbatim>\<open>gdpa_kernel_tma_ws_blackwell\<close>:
  \<^verbatim>\<open>n_tile_num = tl.cdiv(N_CTX, BLOCK_M); total_tiles = n_tile_num * Z * H\<close>, then
  \<^verbatim>\<open>tiles_per_sm = total_tiles // num_progs\<close>, one more when
  \<^verbatim>\<open>prog_id < total_tiles % num_progs\<close> (the argument \<open>ntiles\<close> below is the
  kernel's \<^verbatim>\<open>total_tiles\<close>).
\<close>

definition total_tiles :: "int \<Rightarrow> int \<Rightarrow> int \<Rightarrow> int \<Rightarrow> int" where
  "total_tiles N_CTX BLOCK_M Z H = (let n_tile_num = cdiv N_CTX BLOCK_M in n_tile_num * Z * H)"

definition tiles_per_sm :: "int \<Rightarrow> int \<Rightarrow> int \<Rightarrow> int" where
  "tiles_per_sm ntiles num_progs prog_id =
     (let t = ntiles sdiv num_progs
      in if prog_id < ntiles smod num_progs then t + 1 else t)"

text \<open>
  Every partition runs \<^verbatim>\<open>for idx in range(0, tiles_per_sm): ...; tile_idx += num_progs\<close>
  from \<^verbatim>\<open>tile_idx = prog_id\<close>. \<open>tile_loop n tile_idx num_progs\<close> lists the values of
  \<^verbatim>\<open>tile_idx\<close> in the \<open>n\<close> passes of that loop, and \<open>unit_tiles\<close> is the list for
  the execution unit \<^verbatim>\<open>prog_id\<close>.
\<close>

fun tile_loop :: "nat \<Rightarrow> int \<Rightarrow> int \<Rightarrow> int list" where
  "tile_loop 0 tile_idx num_progs = []"
| "tile_loop (Suc n) tile_idx num_progs = tile_idx # tile_loop n (tile_idx + num_progs) num_progs"

definition unit_tiles :: "int \<Rightarrow> int \<Rightarrow> int \<Rightarrow> int list" where
  "unit_tiles ntiles num_progs prog_id =
     tile_loop (nat (tiles_per_sm ntiles num_progs prog_id)) prog_id num_progs"

subsection \<open>Loops over a range\<close>

text \<open>
  \<^verbatim>\<open>range(lo, hi, step)\<close> with a positive step: the values \<open>lo, lo + step, ...\<close> below
  \<open>hi\<close>.
\<close>

definition range_steps :: "int \<Rightarrow> int \<Rightarrow> int \<Rightarrow> int list" where
  "range_steps lo hi step = map (\<lambda>i. lo + int i * step) [0..<nat ((hi - lo + step - 1) div step)]"

subsection \<open>Reading the ragged offsets\<close>

text \<open>
  \<^verbatim>\<open>_compute_qlen\<close>. The offset arrays are device memory read through pointers
  (\<^verbatim>\<open>tl.load(Q_offsets + off_q_z)\<close>), modelled as functions from the index; the optional
  \<^verbatim>\<open>seq_index\<close> stands for \<^verbatim>\<open>SORT_BY_SEQ_LENGTH\<close>, which the host sets exactly when a
  sequence index is passed.
\<close>

definition compute_qlen ::
  "int \<Rightarrow> int \<Rightarrow> (int \<Rightarrow> int) \<Rightarrow> (int \<Rightarrow> int) \<Rightarrow> (int \<Rightarrow> int) option \<Rightarrow> int \<Rightarrow> int \<Rightarrow>
   int \<times> int \<times> int \<times> int \<times> int" where
  "compute_qlen tile_idx n_tile_num Q_offsets K_offsets seq_index H N_CTX =
     (let off_hz = tile_idx sdiv n_tile_num;
          off_z0 = off_hz sdiv H;
          off_z = (case seq_index of None \<Rightarrow> off_z0 | Some si \<Rightarrow> si off_z0);
          off_q_z = off_z;
          begin_q = Q_offsets off_q_z;
          end_q = Q_offsets (off_q_z + 1);
          qlen = min (end_q - begin_q) N_CTX;
          begin_k = K_offsets off_z;
          end_k = K_offsets (off_z + 1);
          klen = end_k - begin_k
      in (begin_q, end_q, begin_k, qlen, klen))"

subsection \<open>The matrix-multiply partition of the forward kernel\<close>

text \<open>
  The partition \<^verbatim>\<open>with tlx.async_task(num_warps=1, registers=24):  # gemm\<close> of
  \<^verbatim>\<open>gdpa_kernel_tma_ws_blackwell\<close> is modelled by the sequence of barrier and
  matrix-multiply operations it issues. A view is a buffer or barrier array with the
  index of the slot taken from it.
\<close>

datatype buffer = q0_buf | q1_buf | kv_buf | qk0_buf | qk1_buf | p0_buf | p1_buf | o0_buf | o1_buf

datatype barrier =
    consumer_q0 | consumer_q1 | consumer_release_q0 | consumer_release_q1
  | consumer_kv | consumer_release_kv
  | producer_qk0 | producer_commit_qk0 | producer_qk1 | producer_commit_qk1
  | producer_o0 | producer_commit_o0 | producer_o1 | producer_commit_o1

text \<open>
  \<open>Barrier_wait bar phase pred\<close> is \<^verbatim>\<open>tlx.barrier_wait(bar, phase, pred)\<close> (the
  predicate is true where the source gives none);
  \<open>Async_dot a b acc use_acc mBarriers\<close> is \<^verbatim>\<open>tlx.async_dot(a, b, acc, use_acc=...,
  mBarriers=[...])\<close>; \<open>Tcgen05_commit bar\<close> is \<^verbatim>\<open>tlx.tcgen05_commit(bar)\<close>.
\<close>

datatype event =
    Barrier_wait "barrier \<times> int" int bool
  | Async_dot "buffer \<times> int" "buffer \<times> int" "buffer \<times> int" bool "(barrier \<times> int) list"
  | Tcgen05_commit "barrier \<times> int"

text \<open>The counters the partition keeps across tiles.\<close>

record dot_state =
  accum_cnt_q :: int
  accum_cnt_kv :: int
  accum_cnt_o :: int
  accum_cnt_qk :: int
  accum_cnt_outer :: int

text \<open>
  The variables of one tile that the inner loop reads and updates: the four counters, the
  tile-local copies \<^verbatim>\<open>accum_cnt_qk1\<close> and \<^verbatim>\<open>accum_cnt_o1\<close>, the flag \<^verbatim>\<open>first\<close> and
  the slot of \<^verbatim>\<open>v_view\<close>, which the loop body uses before it reassigns it.
\<close>

record dot_inner =
  cnt_kv :: int
  cnt_qk :: int
  cnt_qk1 :: int
  cnt_o :: int
  cnt_o1 :: int
  first :: bool
  v_view :: int

text \<open>
  One pass of \<^verbatim>\<open>for it in range(BLOCK_N, hi, BLOCK_N)\<close>: the operations in program
  order and the updated variables. \<open>bufIdx_q\<close>, \<open>bufIdx_o_outer\<close> and
  \<open>phase_o_outer\<close> are fixed by the tile's prologue.
\<close>

definition dot_inner_step ::
  "int \<Rightarrow> int \<Rightarrow> int \<Rightarrow> int \<Rightarrow> int \<Rightarrow> int \<Rightarrow> dot_inner \<Rightarrow> event list \<times> dot_inner" where
  "dot_inner_step NUM_BUFFERS_KV NUM_BUFFERS_QK NUM_BUFFERS_O bufIdx_q bufIdx_o_outer phase_o_outer s =
     (let (bufIdx_k, phase_k) = get_bufidx_phase (cnt_kv s) NUM_BUFFERS_KV;
          (bufIdx_qk, phase_qk) = get_bufidx_phase (cnt_qk s) NUM_BUFFERS_QK;
          (bufIdx_qk1, phase_qk1) = get_bufidx_phase (cnt_qk1 s) NUM_BUFFERS_QK;
          (bufIdx_o1, phase_o1) = get_bufidx_phase (cnt_o1 s) NUM_BUFFERS_O;
          (bufIdx_v_prev, phase_v_prev) = get_bufidx_phase (cnt_kv s - 1) NUM_BUFFERS_KV;
          (bufIdx_qk1_next, phase_qk1_next) = get_bufidx_phase (cnt_qk1 s + 1) NUM_BUFFERS_QK;
          (bufIdx_v, phase_v) = get_bufidx_phase (cnt_kv s + 1) NUM_BUFFERS_KV;
          (bufIdx_o, phase_o) = get_bufidx_phase (cnt_o s) NUM_BUFFERS_O
      in ([Barrier_wait (consumer_kv, bufIdx_k) phase_k True,
           Async_dot (q0_buf, bufIdx_q) (kv_buf, bufIdx_k) (qk0_buf, bufIdx_qk) False
             [(producer_commit_qk0, bufIdx_qk)],
           Barrier_wait (producer_o1, bufIdx_o_outer) (phase_o_outer XOR 1) (first s),
           Barrier_wait (producer_qk1, bufIdx_qk1) phase_qk1 True,
           Async_dot (p1_buf, bufIdx_qk1) (kv_buf, v_view s) (o1_buf, bufIdx_o1) (\<not> first s)
             [(producer_commit_o1, bufIdx_o1), (consumer_release_kv, bufIdx_v_prev)],
           Async_dot (q1_buf, bufIdx_q) (kv_buf, bufIdx_k) (qk1_buf, bufIdx_qk1_next) False
             [(consumer_release_kv, bufIdx_k), (producer_commit_qk1, bufIdx_qk1_next)],
           Barrier_wait (consumer_kv, bufIdx_v) phase_v True,
           Barrier_wait (producer_qk0, bufIdx_qk) phase_qk True,
           Async_dot (p0_buf, bufIdx_qk) (kv_buf, bufIdx_v) (o0_buf, bufIdx_o) True
             [(producer_commit_o0, bufIdx_o)]],
          s\<lparr>first := False, cnt_kv := cnt_kv s + 2, cnt_qk := cnt_qk s + 1,
            cnt_qk1 := cnt_qk1 s + 1, cnt_o := cnt_o s + 1, cnt_o1 := cnt_o1 s + 1,
            v_view := bufIdx_v\<rparr>))"

text \<open>The inner loop, one pass for every value of \<^verbatim>\<open>it\<close>.\<close>

fun dot_inner_loop ::
  "int \<Rightarrow> int \<Rightarrow> int \<Rightarrow> int \<Rightarrow> int \<Rightarrow> int \<Rightarrow> int list \<Rightarrow> dot_inner \<Rightarrow> event list \<times> dot_inner" where
  "dot_inner_loop NUM_BUFFERS_KV NUM_BUFFERS_QK NUM_BUFFERS_O bufIdx_q bufIdx_o_outer phase_o_outer [] s =
     ([], s)"
| "dot_inner_loop NUM_BUFFERS_KV NUM_BUFFERS_QK NUM_BUFFERS_O bufIdx_q bufIdx_o_outer phase_o_outer (it # its) s =
     (let (es, s') = dot_inner_step NUM_BUFFERS_KV NUM_BUFFERS_QK NUM_BUFFERS_O
                       bufIdx_q bufIdx_o_outer phase_o_outer s;
          (es', s'') = dot_inner_loop NUM_BUFFERS_KV NUM_BUFFERS_QK NUM_BUFFERS_O
                       bufIdx_q bufIdx_o_outer phase_o_outer its s'
      in (es @ es', s''))"

text \<open>
  The body of \<^verbatim>\<open>if start_m * BLOCK_M < qlen:\<close> for one tile: prologue, inner loop over
  \<^verbatim>\<open>range(BLOCK_N, hi, BLOCK_N)\<close> with \<^verbatim>\<open>hi = klen\<close>, epilogue.
\<close>

definition dot_tile ::
  "int \<Rightarrow> int \<Rightarrow> int \<Rightarrow> int \<Rightarrow> int \<Rightarrow> int \<Rightarrow> dot_state \<Rightarrow> event list \<times> dot_state" where
  "dot_tile NUM_BUFFERS_Q NUM_BUFFERS_KV NUM_BUFFERS_QK NUM_BUFFERS_O BLOCK_N klen st =
     (let (bufIdx_q, phase_q) = get_bufidx_phase (accum_cnt_q st) NUM_BUFFERS_Q;
          (bufIdx_k, phase_k) = get_bufidx_phase (accum_cnt_kv st) NUM_BUFFERS_KV;
          (bufIdx_qk, phase_qk) = get_bufidx_phase (accum_cnt_qk st) NUM_BUFFERS_QK;
          accum_cnt_qk1 = accum_cnt_qk st;
          (bufIdx_v, phase_v) = get_bufidx_phase (accum_cnt_kv st + 1) NUM_BUFFERS_KV;
          (bufIdx_o_outer, phase_o_outer) = get_bufidx_phase (accum_cnt_outer st) NUM_BUFFERS_O;
          (bufIdx_p, phase_p) = get_bufidx_phase (accum_cnt_qk st) NUM_BUFFERS_QK;
          (bufIdx_o, phase_o) = get_bufidx_phase (accum_cnt_o st) NUM_BUFFERS_O;
          prologue =
            [Barrier_wait (consumer_q0, bufIdx_q) phase_q True,
             Barrier_wait (consumer_kv, bufIdx_k) phase_k True,
             Async_dot (q0_buf, bufIdx_q) (kv_buf, bufIdx_k) (qk0_buf, bufIdx_qk) False
               [(producer_commit_qk0, bufIdx_qk)],
             Barrier_wait (consumer_q1, bufIdx_q) phase_q True,
             Async_dot (q1_buf, bufIdx_q) (kv_buf, bufIdx_k) (qk1_buf, bufIdx_qk) False
               [(consumer_release_kv, bufIdx_k), (producer_commit_qk1, bufIdx_qk)],
             Barrier_wait (consumer_kv, bufIdx_v) phase_v True,
             Barrier_wait (producer_o0, bufIdx_o_outer) (phase_o_outer XOR 1) True,
             Barrier_wait (producer_qk0, bufIdx_p) phase_p True,
             Async_dot (p0_buf, bufIdx_p) (kv_buf, bufIdx_v) (o0_buf, bufIdx_o) False
               [(producer_commit_o0, bufIdx_o)]];
          accum_cnt_o1 = accum_cnt_o st;
          s0 = \<lparr>cnt_kv = accum_cnt_kv st + 2, cnt_qk = accum_cnt_qk st + 1,
                cnt_qk1 = accum_cnt_qk1, cnt_o = accum_cnt_o st + 1, cnt_o1 = accum_cnt_o1,
                first = True, v_view = bufIdx_v\<rparr>;
          (body, s) = dot_inner_loop NUM_BUFFERS_KV NUM_BUFFERS_QK NUM_BUFFERS_O
                        bufIdx_q bufIdx_o_outer phase_o_outer (range_steps BLOCK_N klen BLOCK_N) s0;
          (bufIdx_qk1, phase_qk1) = get_bufidx_phase (cnt_qk1 s) NUM_BUFFERS_QK;
          (bufIdx_o_epi, phase_o_epi) = get_bufidx_phase (cnt_o1 s) NUM_BUFFERS_O;
          (bufIdx_v_epi, phase_v_epi) = get_bufidx_phase (cnt_kv s - 1) NUM_BUFFERS_KV;
          epilogue =
            [Tcgen05_commit (consumer_release_q0, bufIdx_q),
             Tcgen05_commit (consumer_release_q1, bufIdx_q),
             Barrier_wait (producer_o1, bufIdx_o_outer) (phase_o_outer XOR 1) (first s),
             Barrier_wait (producer_qk1, bufIdx_qk1) phase_qk1 True,
             Async_dot (p1_buf, bufIdx_qk1) (kv_buf, v_view s) (o1_buf, bufIdx_o_epi) (\<not> first s)
               [(producer_commit_o1, bufIdx_o_epi), (consumer_release_kv, bufIdx_v_epi)]]
      in (prologue @ body @ epilogue,
          st\<lparr>accum_cnt_kv := cnt_kv s, accum_cnt_qk := cnt_qk s, accum_cnt_o := cnt_o s,
             accum_cnt_q := accum_cnt_q st + 1, accum_cnt_outer := accum_cnt_outer st + 1\<rparr>))"

text \<open>
  The launch constants and arguments the partition reads, each field named after the
  kernel argument with the prefix \<open>arg\<close>. \<^verbatim>\<open>Z\<close> and \<^verbatim>\<open>num_progs\<close> enter
  through the tile list.
\<close>

record dot_params =
  arg_N_CTX :: int
  arg_BLOCK_M :: int
  arg_BLOCK_N :: int
  arg_H :: int
  arg_NUM_BUFFERS_Q :: int
  arg_NUM_BUFFERS_KV :: int
  arg_NUM_BUFFERS_QK :: int
  arg_NUM_BUFFERS_O :: int
  arg_Q_offsets :: "int \<Rightarrow> int"
  arg_K_offsets :: "int \<Rightarrow> int"
  arg_seq_index :: "(int \<Rightarrow> int) option"

text \<open>
  One pass of the persistent loop of the partition, for the tile \<^verbatim>\<open>tile_idx\<close>: a tile
  whose first row is beyond the sequence issues nothing and leaves the counters alone.
\<close>

definition dot_visit :: "dot_params \<Rightarrow> int \<Rightarrow> dot_state \<Rightarrow> event list \<times> dot_state" where
  "dot_visit c tile_idx st =
     (let n_tile_num = cdiv (arg_N_CTX c) (arg_BLOCK_M c);
          pid = tile_idx smod n_tile_num;
          start_m = pid;
          (begin_q, end_q, begin_k, qlen, klen) =
             compute_qlen tile_idx n_tile_num (arg_Q_offsets c) (arg_K_offsets c) (arg_seq_index c) (arg_H c) (arg_N_CTX c)
      in if start_m * arg_BLOCK_M c < qlen
         then dot_tile (arg_NUM_BUFFERS_Q c) (arg_NUM_BUFFERS_KV c) (arg_NUM_BUFFERS_QK c) (arg_NUM_BUFFERS_O c)
                (arg_BLOCK_N c) klen st
         else ([], st))"

text \<open>The persistent loop: the operations of every visited tile, tile by tile.\<close>

fun dot_tiles :: "dot_params \<Rightarrow> int list \<Rightarrow> dot_state \<Rightarrow> event list list" where
  "dot_tiles c [] st = []"
| "dot_tiles c (tile_idx # rest) st =
     (let (es, st') = dot_visit c tile_idx st in es # dot_tiles c rest st')"

definition dot_partition :: "dot_params \<Rightarrow> int \<Rightarrow> int \<Rightarrow> int \<Rightarrow> event list list" where
  "dot_partition c Z num_progs prog_id =
     dot_tiles c (unit_tiles (total_tiles (arg_N_CTX c) (arg_BLOCK_M c) Z (arg_H c)) num_progs prog_id)
       \<lparr>accum_cnt_q = 0, accum_cnt_kv = 0, accum_cnt_o = 0, accum_cnt_qk = 0, accum_cnt_outer = 0\<rparr>"

text \<open>
  The accumulate flags of the matrix multiplies that write the accumulator \<open>b\<close>, in
  program order.
\<close>

fun acc_flags :: "buffer \<Rightarrow> event list \<Rightarrow> bool list" where
  "acc_flags b [] = []"
| "acc_flags b (Async_dot x y acc use_acc ms # es) =
     (if fst acc = b then use_acc # acc_flags b es else acc_flags b es)"
| "acc_flags b (Barrier_wait bar ph pr # es) = acc_flags b es"
| "acc_flags b (Tcgen05_commit bar # es) = acc_flags b es"

text \<open>
  One unit, one batch element, one head, \<open>N_CTX = BLOCK_M = 256\<close>, \<open>BLOCK_N = 128\<close>
  and one sequence of 256 queries and 256 keys: a single tile with one pass of the inner
  loop, hence two matrix multiplies into each accumulator. It serves as the concrete
  instance of the theorem on accumulate flags.
\<close>

definition example_params :: dot_params where
  "example_params =
     \<lparr>arg_N_CTX = 256, arg_BLOCK_M = 256, arg_BLOCK_N = 128, arg_H = 1,
      arg_NUM_BUFFERS_Q = 1, arg_NUM_BUFFERS_KV = 3, arg_NUM_BUFFERS_QK = 1, arg_NUM_BUFFERS_O = 1,
      arg_Q_offsets = (\<lambda>z. z * 256), arg_K_offsets = (\<lambda>z. z * 256), arg_seq_index = None\<rparr>"

subsection \<open>Elementwise arithmetic\<close>

text \<open>
  The scores are 32 bit floating point numbers. They are modelled by real numbers: the
  packed multiply, add and fused multiply-add of \<^verbatim>\<open>_mul_f32x2\<close>, \<^verbatim>\<open>_add_f32x2\<close> and
  \<^verbatim>\<open>_fma_f32x2\<close> by the exact operations, the instruction \<^verbatim>\<open>tanh.approx.f32\<close> of
  \<^verbatim>\<open>tanh_approx_fp32\<close> by the hyperbolic tangent, and the conversion \<^verbatim>\<open>.to(dtype)\<close>
  to the storage type by the identity. Rounding is therefore outside the model; which
  formula is evaluated, and on which input, is inside it.
\<close>

definition mul_f32x2 :: "real \<Rightarrow> real \<Rightarrow> real" where
  "mul_f32x2 a b = a * b"

definition add_f32x2 :: "real \<Rightarrow> real \<Rightarrow> real" where
  "add_f32x2 a b = a + b"

definition fma_f32x2 :: "real \<Rightarrow> real \<Rightarrow> real \<Rightarrow> real" where
  "fma_f32x2 a b c = a * b + c"

definition tanh_approx_fp32 :: "real \<Rightarrow> real" where
  "tanh_approx_fp32 x = tanh x"

text \<open>\<^verbatim>\<open>fast_gelu\<close>, the helper the activation partitions repeat inline.\<close>

definition fast_gelu :: "real \<Rightarrow> real" where
  "fast_gelu x =
     (let c1 = 0.0356774081;
          c0 = 0.7978845608;
          square = mul_f32x2 x x;
          inner = fma_f32x2 c1 square c0;
          inner' = mul_f32x2 inner x;
          out = fma_f32x2 x (tanh_approx_fp32 inner') x
      in out)"

subsection \<open>The activation partitions of the forward kernel\<close>

text \<open>
  Both activation partitions (\<^verbatim>\<open>async_task("default", ...)\<close> for \<^verbatim>\<open>qk0_buf\<close>/\<^verbatim>\<open>p0_buf\<close>
  and the next task for \<^verbatim>\<open>qk1_buf\<close>/\<^verbatim>\<open>p1_buf\<close>) run the same elementwise code on
  the two halves \<^verbatim>\<open>qk0\<close>, \<^verbatim>\<open>qk1\<close> of the score tile and store \<^verbatim>\<open>p0\<close>, \<^verbatim>\<open>p1\<close>
  into the two halves of the reused buffer. \<open>activation_store\<close> is that code for one
  element of each half. The kernel arguments \<^verbatim>\<open>activation_enum_int\<close> and
  \<^verbatim>\<open>qk_scale\<close> are in scope there; the code reads neither.
\<close>

definition activation_store :: "int \<Rightarrow> real \<Rightarrow> real \<times> real \<Rightarrow> real \<times> real" where
  "activation_store activation_enum_int qk_scale qk =
     (let qk0 = fst qk;
          qk1 = snd qk;
          c1 = 0.0356774081;
          c0 = 0.7978845608;
          square = mul_f32x2 qk0 qk0;
          inner = fma_f32x2 c1 square c0;
          inner0 = mul_f32x2 inner qk0;
          square' = mul_f32x2 qk1 qk1;
          inner' = fma_f32x2 c1 square' c0;
          inner1 = mul_f32x2 inner' qk1;
          p0 = fma_f32x2 qk0 (tanh_approx_fp32 inner0) qk0;
          p1 = fma_f32x2 qk1 (tanh_approx_fp32 inner1) qk1
      in (p0, p1))"

subsection \<open>The activation computation of the backward kernel\<close>


text \<open>
  A tile is a two-dimensional array of scores, read at row \<open>r\<close> and column \<open>c\<close>. In
  \<^verbatim>\<open>_gdpa_bwd_tlx_compute_activation\<close> the tiles are transposed: row \<open>r\<close> belongs to
  the key \<^verbatim>\<open>offs_n[r] = start_n + r\<close> and column \<open>c\<close> to the query
  \<^verbatim>\<open>offs_m[c] = start_m + c\<close>. Both index vectors are computed once, before the loop
  over the steps.
\<close>

type_synonym tile = "int \<Rightarrow> int \<Rightarrow> real"

text \<open>
  \<^verbatim>\<open>mask = offs_m[None, :] >= offs_n[:, None]; pT = tl.where(mask, pT, 0.0)\<close>
\<close>

definition autoregressive_masking :: "int \<Rightarrow> int \<Rightarrow> tile \<Rightarrow> tile" where
  "autoregressive_masking start_m start_n pT =
     (\<lambda>r c. let offs_m = start_m + c; offs_n = start_n + r; mask = (offs_m \<ge> offs_n)
            in if mask then pT r c else 0)"

text \<open>
  \<^verbatim>\<open>window_mask = tl.abs(offs_m[None, :] - offs_n[:, None]) <= WINDOW_SIZE;
  pT = tl.where(window_mask, pT, 0.0)\<close>
\<close>

definition sliding_window_masking :: "int \<Rightarrow> int \<Rightarrow> int \<Rightarrow> tile \<Rightarrow> tile" where
  "sliding_window_masking WINDOW_SIZE start_m start_n pT =
     (\<lambda>r c. let offs_m = start_m + c; offs_n = start_n + r;
                window_mask = (\<bar>offs_m - offs_n\<bar> \<le> WINDOW_SIZE)
            in if window_mask then pT r c else 0)"

text \<open>
  The two masking blocks as they stand in the loop body, first on the scores and again on
  the activation gradient: \<^verbatim>\<open>if MASK: ...\<close> followed by
  \<^verbatim>\<open>if WINDOW_SIZE is not None: ...\<close>.
\<close>

definition bwd_masking :: "bool \<Rightarrow> int option \<Rightarrow> int \<Rightarrow> int \<Rightarrow> tile \<Rightarrow> tile" where
  "bwd_masking MASK WINDOW_SIZE start_m start_n pT =
     (let pT' = (if MASK then autoregressive_masking start_m start_n pT else pT)
      in case WINDOW_SIZE of
           None \<Rightarrow> pT'
         | Some w \<Rightarrow> sliding_window_masking w start_m start_n pT')"

text \<open>
  One pass of the loop over the steps, from the score tile \<^verbatim>\<open>qk_tile\<close> and the tile
  \<^verbatim>\<open>dpT_tile\<close> to the stored tiles \<^verbatim>\<open>ppT\<close> (the factor of the \<open>dV\<close> product) and
  \<^verbatim>\<open>dsT\<close>. \<^verbatim>\<open>gelu\<close> and \<^verbatim>\<open>gelu_grad\<close> are imported from the module \<^verbatim>\<open>.math\<close>, which
  is not among the sources, and are parameters. \<open>bwd_scores\<close> and \<open>bwd_grad\<close> are
  the masked tiles that enter the two products.
\<close>

definition bwd_scores :: "bool \<Rightarrow> int option \<Rightarrow> int \<Rightarrow> int \<Rightarrow> tile \<Rightarrow> tile" where
  "bwd_scores MASK WINDOW_SIZE start_m start_n qk_tile =
     (let pT = qk_tile in bwd_masking MASK WINDOW_SIZE start_m start_n pT)"

definition bwd_tanh_out :: "tile \<Rightarrow> tile" where
  "bwd_tanh_out pT = (\<lambda>r c. tanh_approx_fp32 (0.7978845608 * pT r c * (1 + 0.044715 * pT r c * pT r c)))"

definition bwd_ppT :: "(real \<Rightarrow> real) \<Rightarrow> int \<Rightarrow> tile \<Rightarrow> tile" where
  "bwd_ppT gelu activation_enum_int pT =
     (if activation_enum_int = 0 then pT
      else if activation_enum_int = 1 then (\<lambda>r c. gelu (pT r c))
      else if activation_enum_int = 2 then (\<lambda>r c. 0.5 * pT r c * (1 + bwd_tanh_out pT r c))
      else pT)"

definition bwd_grad ::
  "(real \<Rightarrow> real) \<Rightarrow> bool \<Rightarrow> int option \<Rightarrow> int \<Rightarrow> int \<Rightarrow> int \<Rightarrow> tile \<Rightarrow> tile" where
  "bwd_grad gelu_grad MASK WINDOW_SIZE activation_enum_int start_m start_n pT =
     (let pT' =
        (if activation_enum_int = 0 then (\<lambda>r c. 1.0)
         else if activation_enum_int = 1 then (\<lambda>r c. gelu_grad (pT r c))
         else if activation_enum_int = 2 then
           (\<lambda>r c. (0.5 * pT r c * (1 - bwd_tanh_out pT r c * bwd_tanh_out pT r c)
                      * (0.7978845608 + 0.1070322243 * pT r c * pT r c))
                   + 0.5 * (1 + bwd_tanh_out pT r c))
         else (\<lambda>r c. 1))
      in bwd_masking MASK WINDOW_SIZE start_m start_n pT')"

definition bwd_activation_step ::
  "(real \<Rightarrow> real) \<Rightarrow> (real \<Rightarrow> real) \<Rightarrow> bool \<Rightarrow> int option \<Rightarrow> int \<Rightarrow> int \<Rightarrow> int \<Rightarrow>
   tile \<Rightarrow> tile \<Rightarrow> tile \<times> tile" where
  "bwd_activation_step gelu gelu_grad MASK WINDOW_SIZE activation_enum_int start_m start_n
     qk_tile dpT_tile =
     (let pT = bwd_scores MASK WINDOW_SIZE start_m start_n qk_tile;
          ppT = bwd_ppT gelu activation_enum_int pT;
          pT' = bwd_grad gelu_grad MASK WINDOW_SIZE activation_enum_int start_m start_n pT;
          dpT = dpT_tile;
          dsT = (\<lambda>r c. pT' r c * dpT r c)
      in (ppT, dsT))"




subsection \<open>Device memory and tensor descriptors\<close>

text \<open>
  The memory of a tensor is a function from the element offset to the element. A
  descriptor \<^verbatim>\<open>tl.make_tensor_descriptor(base, shape=[s0, s1], strides=[st0, 1], ...)\<close>
  gives a two-dimensional view of it, and \<^verbatim>\<open>block_shape\<close> the extent of the blocks
  moved through it. A block load reads the elements of the block that lie inside the
  shape and zero elsewhere; a block store writes the elements of the block
  that lie inside the shape and nothing else. This is the behaviour of the bulk copy
  engine the descriptors drive; it is taken as given, the library that implements it is
  not part of the sources.
\<close>

type_synonym memory = "int \<Rightarrow> real"

record descriptor =
  desc_shape0 :: int
  desc_shape1 :: int
  desc_stride0 :: int

text \<open>
  \<open>descriptor_load mem d block off\<close> is the block of shape \<open>block\<close> loaded from the
  coordinates \<open>off\<close>; as a tile it is zero outside the block.
\<close>

definition descriptor_load :: "memory \<Rightarrow> descriptor \<Rightarrow> int \<times> int \<Rightarrow> int \<times> int \<Rightarrow> tile" where
  "descriptor_load mem d block off =
     (\<lambda>i j. let r = fst off + i; c = snd off + j
            in if 0 \<le> i \<and> i < fst block \<and> 0 \<le> j \<and> j < snd block \<and>
                  0 \<le> r \<and> r < desc_shape0 d \<and> 0 \<le> c \<and> c < desc_shape1 d
               then mem (r * desc_stride0 d + c) else 0)"

text \<open>
  \<open>descriptor_store mem d block off t\<close> is the memory after the block \<open>t\<close> of shape
  \<open>block\<close> is stored at the coordinates \<open>off\<close>. The element offset \<open>a\<close> is the
  element of row \<open>a div st0\<close> and column \<open>a mod st0\<close> of the view.
\<close>

definition descriptor_store ::
  "memory \<Rightarrow> descriptor \<Rightarrow> int \<times> int \<Rightarrow> int \<times> int \<Rightarrow> tile \<Rightarrow> memory" where
  "descriptor_store mem d block off t =
     (\<lambda>a. let r = a div desc_stride0 d; c = a mod desc_stride0 d;
              i = r - fst off; j = c - snd off
          in if 0 \<le> i \<and> i < fst block \<and> 0 \<le> j \<and> j < snd block \<and>
                0 \<le> r \<and> r < desc_shape0 d \<and> 0 \<le> c \<and> c < desc_shape1 d
             then t i j else mem a)"

subsection \<open>The data path of the forward kernel\<close>

text \<open>
  The arguments of \<^verbatim>\<open>gdpa_kernel_tma_ws_blackwell\<close> beyond those of the matrix-multiply
  partition. \<^verbatim>\<open>Out\<close> is the memory the kernel writes and is passed separately. The
  arguments \<^verbatim>\<open>Out_offsets\<close>, \<^verbatim>\<open>ad_to_request_offset_ptr\<close>, the strides of the
  row and element dimensions, \<^verbatim>\<open>is_predict\<close>, \<^verbatim>\<open>Q_SHAPE_0\<close>, \<^verbatim>\<open>FUSED_QKV\<close>,
  \<^verbatim>\<open>FUSED_KV\<close>, \<^verbatim>\<open>STAGE\<close>, \<^verbatim>\<open>USE_START_END_OFFSETS\<close>, \<^verbatim>\<open>BROADCAST_Q\<close> and
  \<^verbatim>\<open>IS_DENSE_KV\<close> occur nowhere in the body of the kernel and are left out; the host
  fixes \<^verbatim>\<open>USE_ON_DEVICE_TMA = True\<close> and \<^verbatim>\<open>MERGE_EPI = False\<close>, and those branches
  are the ones modelled.
\<close>

record kernel_args = dot_params +
  arg_Q :: memory
  arg_K :: memory
  arg_V :: memory
  arg_stride_qh :: int
  arg_stride_kh :: int
  arg_stride_oh :: int
  arg_Z :: int
  arg_G :: int
  arg_N_CTX_KV :: int
  arg_qk_scale :: real
  arg_HEAD_DIM :: int
  arg_BLOCK_D :: int
  arg_WINDOW_SIZE :: "int option"
  arg_activation_enum_int :: int

text \<open>
  The activation partitions on a whole score tile: \<^verbatim>\<open>qk0\<close> is the sub-slice of the
  columns \<open>0, ..., HEAD_DIM // 2 - 1\<close>, \<^verbatim>\<open>qk1\<close> the sub-slice of the next
  \<^verbatim>\<open>HEAD_DIM // 2\<close> columns, and \<^verbatim>\<open>p0\<close>, \<^verbatim>\<open>p1\<close> are stored to the same
  sub-slices of the reused buffer. A column outside both sub-slices is not stored to.
\<close>

definition activation_tile :: "kernel_args \<Rightarrow> tile \<Rightarrow> tile" where
  "activation_tile c qk =
     (\<lambda>r j. let half = arg_HEAD_DIM c sdiv 2
            in if 0 \<le> j \<and> j < half
               then fst (activation_store (arg_activation_enum_int c) (arg_qk_scale c)
                          (qk r j, qk r (j + half)))
               else if half \<le> j \<and> j < half + half
               then snd (activation_store (arg_activation_enum_int c) (arg_qk_scale c)
                          (qk r (j - half), qk r j))
               else qk r j)"

text \<open>
  One output accumulator over the key/value blocks of a tile. \<open>dot a b\<close> is the product
  \<^verbatim>\<open>tlx.async_dot\<close> computes from the operand tiles \<open>a\<close> and \<open>b\<close>, a library
  operation and a parameter here. The prologue of the matrix-multiply partition issues
  the product into the accumulator with \<^verbatim>\<open>use_acc=False\<close>, which overwrites it; every
  pass of the inner loop, and the epilogue, issue it with \<^verbatim>\<open>use_acc=True\<close>, which adds
  to it (the flags are those of \<open>dot_tile\<close>). \<open>kv0\<close> is the key and value block of
  the prologue, \<open>kvs\<close> are those of the inner loop.
\<close>

definition accumulate_o ::
  "(tile \<Rightarrow> tile \<Rightarrow> tile) \<Rightarrow> (tile \<Rightarrow> tile) \<Rightarrow> tile \<Rightarrow> tile \<times> tile \<Rightarrow> (tile \<times> tile) list \<Rightarrow> tile" where
  "accumulate_o dot act q kv0 kvs =
     foldl (\<lambda>acc kv. (\<lambda>r j. acc r j + dot (act (dot q (fst kv))) (snd kv) r j))
       (dot (act (dot q (fst kv0))) (snd kv0)) kvs"

text \<open>
  The coordinates of a tile, as every partition computes them from \<^verbatim>\<open>tile_idx\<close>.
\<close>

record tile_coords =
  tc_start_m :: int
  tc_off_z :: int
  tc_off_h :: int
  tc_off_h_kv :: int
  tc_begin_q :: int
  tc_end_q :: int
  tc_begin_k :: int
  tc_qlen :: int
  tc_klen :: int

definition tile_coordinates :: "kernel_args \<Rightarrow> int \<Rightarrow> tile_coords" where
  "tile_coordinates c tile_idx =
     (let n_tile_num = cdiv (arg_N_CTX c) (arg_BLOCK_M c);
          pid = tile_idx smod n_tile_num;
          off_hz = tile_idx sdiv n_tile_num;
          off_z0 = off_hz sdiv arg_H c;
          off_z = (case arg_seq_index c of None \<Rightarrow> off_z0 | Some si \<Rightarrow> si off_z0);
          off_h = off_hz smod arg_H c;
          off_h_kv = off_h sdiv arg_G c;
          (begin_q, end_q, begin_k, qlen, klen) =
             compute_qlen tile_idx n_tile_num (arg_Q_offsets c) (arg_K_offsets c)
               (arg_seq_index c) (arg_H c) (arg_N_CTX c)
      in \<lparr>tc_start_m = pid, tc_off_z = off_z, tc_off_h = off_h, tc_off_h_kv = off_h_kv,
          tc_begin_q = begin_q, tc_end_q = end_q, tc_begin_k = begin_k,
          tc_qlen = qlen, tc_klen = klen\<rparr>)"

text \<open>The guard \<^verbatim>\<open>if start_m * BLOCK_M < qlen:\<close> of every partition.\<close>

definition tile_processed :: "kernel_args \<Rightarrow> int \<Rightarrow> bool" where
  "tile_processed c tile_idx =
     (let t = tile_coordinates c tile_idx in tc_start_m t * arg_BLOCK_M c < tc_qlen t)"

text \<open>
  For a processed tile the activation partitions pass once per value of
  \<^verbatim>\<open>range(0, klen, BLOCK_N)\<close>, while the load and matrix-multiply partitions handle one
  key/value block in their prologue and one per value of \<^verbatim>\<open>range(BLOCK_N, klen,
  BLOCK_N)\<close>. The data path below describes the kernel only when the two counts agree;
  otherwise the matrix-multiply partition waits for an activated tile that the activation
  partition does not produce for this tile, and no output is modelled.
\<close>

definition tile_in_step :: "kernel_args \<Rightarrow> int \<Rightarrow> bool" where
  "tile_in_step c tile_idx =
     (let t = tile_coordinates c tile_idx
      in \<not> tile_processed c tile_idx \<or>
         length (range_steps 0 (tc_klen t) (arg_BLOCK_N c)) =
         1 + length (range_steps (arg_BLOCK_N c) (tc_klen t) (arg_BLOCK_N c)))"

text \<open>
  The descriptors the partitions build: \<^verbatim>\<open>q_desc\<close> and \<^verbatim>\<open>o_desc\<close> with
  \<^verbatim>\<open>shape=[end_q, HEAD_DIM * H]\<close>, \<^verbatim>\<open>k_desc\<close> and \<^verbatim>\<open>v_desc\<close> with
  \<^verbatim>\<open>shape=[N_CTX_KV * Z, HEAD_DIM * H // G]\<close>, each with the row stride equal to the
  second extent.
\<close>

definition qo_desc :: "kernel_args \<Rightarrow> int \<Rightarrow> descriptor" where
  "qo_desc c end_q =
     \<lparr>desc_shape0 = end_q, desc_shape1 = arg_HEAD_DIM c * arg_H c,
      desc_stride0 = arg_HEAD_DIM c * arg_H c\<rparr>"

definition kv_desc :: "kernel_args \<Rightarrow> descriptor" where
  "kv_desc c =
     \<lparr>desc_shape0 = arg_N_CTX_KV c * arg_Z c,
      desc_shape1 = (arg_HEAD_DIM c * arg_H c) sdiv arg_G c,
      desc_stride0 = (arg_HEAD_DIM c * arg_H c) sdiv arg_G c\<rparr>"

text \<open>
  The model follows the data of a tile through the partitions in the order of the data
  flow: the load partition's tiles, the products of the matrix-multiply partition, the
  activation, the second products, the stores. That is the order the barrier hand-offs
  between the partitions are written to establish; the timing of the partitions is not
  modelled.

  The two blocks a processed tile stores, with their coordinates: the epilogue partition
  stores \<^verbatim>\<open>o0_smem[0]\<close> at row \<^verbatim>\<open>begin_q + start_m * BLOCK_M\<close> and \<^verbatim>\<open>o1_smem[0]\<close>
  \<^verbatim>\<open>BLOCK_M // 2\<close> rows below, both at column \<^verbatim>\<open>out_offset = off_h * stride_oh\<close>.
\<close>

definition tile_results ::
  "(tile \<Rightarrow> tile \<Rightarrow> tile) \<Rightarrow> kernel_args \<Rightarrow> int \<Rightarrow> tile \<times> tile" where
  "tile_results dot c tile_idx =
     (let t = tile_coordinates c tile_idx;
          q_offset = tc_off_h t * arg_stride_qh c;
          kv_offset = tc_off_h_kv t * arg_stride_kh c;
          q_desc = qo_desc c (tc_end_q t);
          q_block = (arg_BLOCK_M c sdiv 2, arg_BLOCK_D c);
          kv_block = (arg_BLOCK_N c, arg_BLOCK_D c);
          q0 = descriptor_load (arg_Q c) q_desc q_block
                 (tc_begin_q t + tc_start_m t * arg_BLOCK_M c, q_offset);
          q1 = descriptor_load (arg_Q c) q_desc q_block
                 (tc_begin_q t + tc_start_m t * arg_BLOCK_M c + arg_BLOCK_M c sdiv 2, q_offset);
          kv = (\<lambda>start_n.
                  (descriptor_load (arg_K c) (kv_desc c) kv_block (tc_begin_k t + start_n, kv_offset),
                   descriptor_load (arg_V c) (kv_desc c) kv_block (tc_begin_k t + start_n, kv_offset)));
          kvs = map kv (range_steps (arg_BLOCK_N c) (tc_klen t) (arg_BLOCK_N c));
          o0 = accumulate_o dot (activation_tile c) q0 (kv 0) kvs;
          o1 = accumulate_o dot (activation_tile c) q1 (kv 0) kvs
      in (o0, o1))"

definition fwd_tile :: "(tile \<Rightarrow> tile \<Rightarrow> tile) \<Rightarrow> kernel_args \<Rightarrow> int \<Rightarrow> memory \<Rightarrow> memory" where
  "fwd_tile dot c tile_idx Out =
     (if tile_processed c tile_idx
      then let t = tile_coordinates c tile_idx;
               out_offset = tc_off_h t * arg_stride_oh c;
               o_desc = qo_desc c (tc_end_q t);
               block = (arg_BLOCK_M c sdiv 2, arg_BLOCK_D c);
               row = tc_begin_q t + tc_start_m t * arg_BLOCK_M c;
               (o0, o1) = tile_results dot c tile_idx;
               Out' = descriptor_store Out o_desc block (row, out_offset) o0
           in descriptor_store Out' o_desc block (row + arg_BLOCK_M c sdiv 2, out_offset) o1
      else Out)"

text \<open>
  The tiles of a list in turn; \<open>None\<close> when a tile is met on which the partitions fall
  out of step.
\<close>

fun fwd_tiles ::
  "(tile \<Rightarrow> tile \<Rightarrow> tile) \<Rightarrow> kernel_args \<Rightarrow> int list \<Rightarrow> memory \<Rightarrow> memory option" where
  "fwd_tiles dot c [] Out = Some Out"
| "fwd_tiles dot c (tile_idx # rest) Out =
     (if tile_in_step c tile_idx then fwd_tiles dot c rest (fwd_tile dot c tile_idx Out)
      else None)"

text \<open>
  The launch on \<open>num_progs\<close> execution units. The units run side by side; the model
  takes their tiles unit by unit, in the order of the program ids.
\<close>

definition launch_tiles :: "kernel_args \<Rightarrow> int \<Rightarrow> int list" where
  "launch_tiles c num_progs =
     concat (map (\<lambda>prog_id. unit_tiles (total_tiles (arg_N_CTX c) (arg_BLOCK_M c) (arg_Z c) (arg_H c))
                               num_progs (int prog_id))
                 [0..<nat num_progs])"

definition gdpa_kernel_tma_ws_blackwell ::
  "(tile \<Rightarrow> tile \<Rightarrow> tile) \<Rightarrow> kernel_args \<Rightarrow> int \<Rightarrow> memory \<Rightarrow> memory option" where
  "gdpa_kernel_tma_ws_blackwell dot c num_progs Out =
     fwd_tiles dot c (launch_tiles c num_progs) Out"

text \<open>
  The element offsets a tile stores to: those of the two blocks that lie inside the shape
  of the output descriptor.
\<close>

definition block_covers :: "descriptor \<Rightarrow> int \<times> int \<Rightarrow> int \<times> int \<Rightarrow> int \<Rightarrow> bool" where
  "block_covers d block off a =
     (let r = a div desc_stride0 d; c = a mod desc_stride0 d;
          i = r - fst off; j = c - snd off
      in 0 \<le> i \<and> i < fst block \<and> 0 \<le> j \<and> j < snd block \<and>
         0 \<le> r \<and> r < desc_shape0 d \<and> 0 \<le> c \<and> c < desc_shape1 d)"

definition tile_stores :: "kernel_args \<Rightarrow> int \<Rightarrow> int \<Rightarrow> bool" where
  "tile_stores c tile_idx a =
     (tile_processed c tile_idx \<and>
      (let t = tile_coordinates c tile_idx;
           out_offset = tc_off_h t * arg_stride_oh c;
           o_desc = qo_desc c (tc_end_q t);
           block = (arg_BLOCK_M c sdiv 2, arg_BLOCK_D c);
           row = tc_begin_q t + tc_start_m t * arg_BLOCK_M c
       in block_covers o_desc block (row, out_offset) a \<or>
          block_covers o_desc block (row + arg_BLOCK_M c sdiv 2, out_offset) a))"

definition launch_stores :: "kernel_args \<Rightarrow> int \<Rightarrow> int \<Rightarrow> bool" where
  "launch_stores c num_progs a = (\<exists>tile_idx \<in> set (launch_tiles c num_progs). tile_stores c tile_idx a)"

subsection \<open>The host side of the forward entry point\<close>

text \<open>
  \<^verbatim>\<open>gdpa_forward_tlx\<close>. A tensor of three dimensions is its shape and its memory; the
  tensors are taken to be contiguous, so that the strides follow from the shape. An
  offsets tensor is its length and its memory. Only the parameters that the body of the
  function reads are fields of \<open>forward_call\<close>, each named after the parameter with the
  prefix \<open>p\<close>; \<^verbatim>\<open>output_offset\<close> and \<^verbatim>\<open>ad_to_request_offset\<close> are handed to the kernel,
  which does not read them, and the remaining parameters (\<^verbatim>\<open>attn_mask\<close>,
  \<^verbatim>\<open>attn_offset\<close>, \<^verbatim>\<open>is_causal\<close>, \<^verbatim>\<open>allow_tf32\<close>, \<^verbatim>\<open>enable_persistent\<close>,
  \<^verbatim>\<open>enable_tma\<close>, \<^verbatim>\<open>enable_ws\<close>, \<^verbatim>\<open>use_dq_atomic_add\<close>, \<^verbatim>\<open>bwd_opt_tech\<close>) occur
  nowhere in the body.
\<close>

datatype error = ValueError | TypeError | RuntimeError | ZeroDivisionError | AssertionError

record tensor3 =
  dim0 :: nat
  dim1 :: nat
  dim2 :: nat
  elems :: memory

record offsets =
  off_size :: nat
  off_data :: "int \<Rightarrow> int"

record forward_call =
  p_query :: tensor3
  p_key :: tensor3
  p_value :: tensor3
  p_query_offset :: offsets
  p_key_offset :: offsets
  p_max_seq_len_q :: int
  p_max_seq_len_kv :: int
  p_qk_scale :: "real option"
  p_seq_index :: "(int \<Rightarrow> int) option"
  p_use_start_end_offsets :: bool
  p_window_size :: "int option"
  p_broadcast_q :: bool
  p_activation :: string
  p_total_num_objects :: "int option"

text \<open>
  What the function takes from outside the sources: the result of \<^verbatim>\<open>get_num_sms()\<close>
  and the function \<^verbatim>\<open>activation_string_to_int\<close> (both imported from modules that are
  not among the sources), the content of the memory \<^verbatim>\<open>torch.empty\<close> hands out, which
  is not initialised, and the product of \<^verbatim>\<open>tlx.async_dot\<close>.
\<close>

record environment =
  env_get_num_sms :: "int option"
  env_activation_string_to_int :: "string \<Rightarrow> int"
  env_torch_empty :: memory
  env_async_dot :: "tile \<Rightarrow> tile \<Rightarrow> tile"

text \<open>
  \<^verbatim>\<open>next_power_of_2(x) = 2 ** (math.ceil(math.log(x, 2)))\<close>; \<^verbatim>\<open>math.log\<close> raises
  \<^verbatim>\<open>ValueError\<close> on an argument that is not positive. The logarithm is the exact one.
\<close>

definition next_power_of_2 :: "int \<Rightarrow> error + int" where
  "next_power_of_2 x =
     (if x \<le> 0 then Inl ValueError else Inr (2 ^ nat \<lceil>log 2 (real_of_int x)\<rceil>))"

text \<open>
  \<^verbatim>\<open>torch.empty((rows, ...))\<close>: \<^verbatim>\<open>TypeError\<close> when the extent is \<^verbatim>\<open>None\<close>,
  \<^verbatim>\<open>RuntimeError\<close> when it is negative; otherwise a tensor with that many rows.
\<close>

definition torch_empty_rows :: "int option \<Rightarrow> error + nat" where
  "torch_empty_rows rows =
     (case rows of
        None \<Rightarrow> Inl TypeError
      | Some n \<Rightarrow> if n < 0 then Inl RuntimeError else Inr (nat n))"

text \<open>\<^verbatim>\<open>triton.cdiv(x, y)\<close> on the host: \<^verbatim>\<open>(x + y - 1) // y\<close> on Python integers.\<close>

definition triton_cdiv :: "int \<Rightarrow> int \<Rightarrow> int" where
  "triton_cdiv x y = (x + y - 1) div y"

text \<open>
  The batch size: \<^verbatim>\<open>key_offset.size(0) - 1\<close> with \<^verbatim>\<open>broadcast_q\<close>, else
  \<^verbatim>\<open>query_offset.size(0) // 2\<close> with \<^verbatim>\<open>use_start_end_offsets\<close>, else
  \<^verbatim>\<open>query_offset.size(0) - 1\<close>.
\<close>

definition forward_BATCH :: "forward_call \<Rightarrow> int" where
  "forward_BATCH p =
     (if p_broadcast_q p then int (off_size (p_key_offset p)) - 1
      else if p_use_start_end_offsets p then int (off_size (p_query_offset p)) div 2
      else int (off_size (p_query_offset p)) - 1)"

text \<open>The first extent of the output tensor handed to \<^verbatim>\<open>torch.empty\<close>.\<close>

definition forward_output_rows :: "forward_call \<Rightarrow> int option" where
  "forward_output_rows p =
     (if p_use_start_end_offsets p then p_total_num_objects p
      else Some (if p_broadcast_q p then forward_BATCH p * int (dim0 (p_query p))
                 else int (dim0 (p_query p))))"

text \<open>
  The arguments of the launch. Every configuration of \<^verbatim>\<open>get_cuda_autotune_config\<close> has
  \<^verbatim>\<open>BLOCK_M = 256\<close>, \<^verbatim>\<open>BLOCK_N = 128\<close> and the buffer counts 1, 3, 1, 1. \<open>np2\<close>
  is the value of \<^verbatim>\<open>next_power_of_2(HEAD_DIM_Q)\<close>.
\<close>

definition forward_kernel_args :: "environment \<Rightarrow> forward_call \<Rightarrow> int \<Rightarrow> kernel_args" where
  "forward_kernel_args env p np2 =
     (let qk_scale = (case p_qk_scale p of None \<Rightarrow> 1.0 | Some s \<Rightarrow> s);
          HEAD_DIM_Q = int (dim2 (p_query p));
          HEAD_DIM_K = int (dim2 (p_key p));
          BLOCK_D = max np2 16;
          BATCH = forward_BATCH p;
          nheads = int (dim1 (p_query p));
          G = int (dim1 (p_query p)) div int (dim1 (p_key p));
          activation_enum_int = env_activation_string_to_int env (p_activation p)
      in \<lparr>arg_N_CTX = p_max_seq_len_q p, arg_BLOCK_M = 256, arg_BLOCK_N = 128,
          arg_H = nheads,
          arg_NUM_BUFFERS_Q = 1, arg_NUM_BUFFERS_KV = 3, arg_NUM_BUFFERS_QK = 1,
          arg_NUM_BUFFERS_O = 1,
          arg_Q_offsets = off_data (p_query_offset p),
          arg_K_offsets = off_data (p_key_offset p),
          arg_seq_index = p_seq_index p,
          arg_Q = elems (p_query p), arg_K = elems (p_key p), arg_V = elems (p_value p),
          arg_stride_qh = int (dim2 (p_query p)),
          arg_stride_kh = int (dim2 (p_key p)),
          arg_stride_oh = HEAD_DIM_Q,
          arg_Z = BATCH, arg_G = G, arg_N_CTX_KV = p_max_seq_len_kv p,
          arg_qk_scale = qk_scale, arg_HEAD_DIM = HEAD_DIM_K, arg_BLOCK_D = BLOCK_D,
          arg_WINDOW_SIZE = p_window_size p,
          arg_activation_enum_int = activation_enum_int\<rparr>)"

text \<open>
  The grid of \<^verbatim>\<open>grid_tma_persistent\<close>:
  \<^verbatim>\<open>min(NUM_SMS, triton.cdiv(max_seq_len_q, BLOCK_M) * BATCH * nheads)\<close> with
  \<^verbatim>\<open>NUM_SMS = get_num_sms() or 1000000\<close>.
\<close>

definition forward_grid :: "environment \<Rightarrow> forward_call \<Rightarrow> int" where
  "forward_grid env p =
     (let NUM_SMS = (case env_get_num_sms env of
                       None \<Rightarrow> 1000000
                     | Some n \<Rightarrow> if n = 0 then 1000000 else n)
      in min NUM_SMS (triton_cdiv (p_max_seq_len_q p) 256 * forward_BATCH p * int (dim1 (p_query p))))"

text \<open>
  Everything \<^verbatim>\<open>gdpa_forward_tlx\<close> does before it launches the kernel, in the order of
  the source: \<^verbatim>\<open>BLOCK_D = max(next_power_of_2(HEAD_DIM_Q), 16)\<close>, the allocation of
  the output, \<^verbatim>\<open>G = query.shape[1] // key.shape[1]\<close>, and
  \<^verbatim>\<open>assert query.shape[1] % key.shape[1] == 0\<close>. The result is the first exception
  raised, or the arguments of the launch, the size of the grid and the number of rows of
  the output tensor.
\<close>

definition gdpa_forward_tlx_launch ::
  "environment \<Rightarrow> forward_call \<Rightarrow> error + (kernel_args \<times> int \<times> nat)" where
  "gdpa_forward_tlx_launch env p =
     (case next_power_of_2 (int (dim2 (p_query p))) of
        Inl e \<Rightarrow> Inl e
      | Inr np2 \<Rightarrow>
          (case torch_empty_rows (forward_output_rows p) of
             Inl e \<Rightarrow> Inl e
           | Inr o_rows \<Rightarrow>
               if dim1 (p_key p) = 0 then Inl ZeroDivisionError
               else if int (dim1 (p_query p)) mod int (dim1 (p_key p)) \<noteq> 0
               then Inl AssertionError
               else Inr (forward_kernel_args env p np2, forward_grid env p, o_rows)))"

text \<open>
  The call: the exception of the host side, or the memory of the returned tensor
  \<^verbatim>\<open>o\<close> after the kernel has run on the freshly allocated memory (\<open>None\<close> where the
  data path gives no output).
\<close>

definition gdpa_forward_tlx :: "environment \<Rightarrow> forward_call \<Rightarrow> error + memory option" where
  "gdpa_forward_tlx env p =
     (case gdpa_forward_tlx_launch env p of
        Inl e \<Rightarrow> Inl e
      | Inr (c, grid, o_rows) \<Rightarrow>
          Inr (gdpa_kernel_tma_ws_blackwell (env_async_dot env) c grid (env_torch_empty env)))"


text \<open>
  The condition of the specification on ragged offsets, in its words: the sum of
  \<open>end[i] - begin[i]\<close> over the batch equals the number of rows of the packed tensor,
  where \<open>begin[i]\<close> and \<open>end[i]\<close> are consecutive entries of the offsets.
\<close>

definition ragged_offsets_consistent :: "offsets \<Rightarrow> nat \<Rightarrow> bool" where
  "ragged_offsets_consistent offs rows =
     (sum_list (map (\<lambda>i. off_data offs (int i + 1) - off_data offs (int i))
                  [0..<off_size offs - 1]) = int rows)"

text \<open>
  A call with one batch element, one head of dimension 128, a query tensor of two rows of
  which the offsets \<open>[0, 1]\<close> cover the first, and one key and value row; the second
  query row is a padding row. The environment reports 148 execution units.
\<close>

definition padded_call :: forward_call where
  "padded_call =
     \<lparr>p_query = \<lparr>dim0 = 2, dim1 = 1, dim2 = 128, elems = (\<lambda>a. 1)\<rparr>,
      p_key = \<lparr>dim0 = 1, dim1 = 1, dim2 = 128, elems = (\<lambda>a. 1)\<rparr>,
      p_value = \<lparr>dim0 = 1, dim1 = 1, dim2 = 128, elems = (\<lambda>a. 1)\<rparr>,
      p_query_offset = \<lparr>off_size = 2, off_data = (\<lambda>i. if i \<le> 0 then 0 else 1)\<rparr>,
      p_key_offset = \<lparr>off_size = 2, off_data = (\<lambda>i. if i \<le> 0 then 0 else 1)\<rparr>,
      p_max_seq_len_q = 1, p_max_seq_len_kv = 1, p_qk_scale = None, p_seq_index = None,
      p_use_start_end_offsets = False, p_window_size = None, p_broadcast_q = False,
      p_activation = ''fast_gelu'', p_total_num_objects = None\<rparr>"

definition example_env :: environment where
  "example_env =
     \<lparr>env_get_num_sms = Some 148, env_activation_string_to_int = (\<lambda>s. 3),
      env_torch_empty = (\<lambda>a. 0),
      env_async_dot = (\<lambda>a b i j. sum_list (map (\<lambda>d. a i (int d) * b (int d) j) [0..<128]))\<rparr>"

section \<open>Signed division on non-negative operands\<close>

lemma sdiv_nonneg: "0 \<le> a \<Longrightarrow> 0 < b \<Longrightarrow> (a::int) sdiv b = a div b"
  by (cases "a = 0") (simp_all add: signed_divide_int_def)

lemma smod_nonneg: "0 \<le> a \<Longrightarrow> 0 < b \<Longrightarrow> (a::int) smod b = a mod b"
  by (cases "a = 0") (simp_all add: signed_modulo_int_def signed_divide_int_def minus_mult_div_eq_mod)

section \<open>The tile scheduler partitions the tiles\<close>

lemma tile_loop_eq: "tile_loop n t p = map (\<lambda>j. t + int j * p) [0..<n]"
proof (induction n arbitrary: t)
  case 0
  show ?case by simp
next
  case (Suc n)
  have "map (\<lambda>j. t + int j * p) [0..<Suc n] = t # map (\<lambda>j. t + int (Suc j) * p) [0..<n]"
    by (simp only: upt_conv_Cons[of 0 "Suc n"] map_Suc_upt[symmetric]) (simp add: comp_def del: upt_Suc)
  also have "\<dots> = t # map (\<lambda>j. (t + p) + int j * p) [0..<n]"
    by (simp add: algebra_simps)
  finally show ?case using Suc.IH[of "t + p"] by simp
qed

lemma tiles_per_sm_eq:
  fixes T P u :: int
  assumes "0 \<le> T" "0 < P"
  shows "tiles_per_sm T P u = T div P + (if u < T mod P then 1 else 0)"
  using assms by (simp add: tiles_per_sm_def Let_def sdiv_nonneg smod_nonneg)

lemma tile_below_iff:
  fixes P u j T :: int
  assumes "0 < P" "0 \<le> u" "u < P" "0 \<le> j"
  shows "u + j * P < T \<longleftrightarrow> j < T div P + (if u < T mod P then 1 else 0)"
proof -
  have T: "(T div P) * P + T mod P = T" by (rule div_mult_mod_eq)
  have m: "0 \<le> T mod P" "T mod P < P" using assms by simp_all
  consider (lt) "j < T div P" | (eq) "j = T div P" | (gt) "T div P < j" by linarith
  then show ?thesis
  proof cases
    case lt
    then have "j + 1 \<le> T div P" by simp
    then have "(j + 1) * P \<le> (T div P) * P" using assms by (intro mult_right_mono) simp_all
    then have "j * P + P \<le> (T div P) * P" by (simp add: algebra_simps)
    then have "u + j * P < T" using assms m T by linarith
    then show ?thesis using lt by simp
  next
    case eq
    have "j * P + T mod P = T" using T eq by simp
    then have "u + j * P < T \<longleftrightarrow> u < T mod P" by linarith
    then show ?thesis using eq by simp
  next
    case gt
    then have "T div P + 1 \<le> j" by simp
    then have "(T div P + 1) * P \<le> j * P" using assms by (intro mult_right_mono) simp_all
    then have "(T div P) * P + P \<le> j * P" by (simp add: algebra_simps)
    then have "\<not> u + j * P < T" using assms m T by linarith
    then show ?thesis using gt by simp
  qed
qed


lemma cdiv_nonneg: "0 \<le> x \<Longrightarrow> 0 < d \<Longrightarrow> 0 \<le> cdiv x d"
  by (simp add: cdiv_def sdiv_nonneg pos_imp_zdiv_nonneg_iff)

lemma total_tiles_nonneg:
  "0 \<le> N_CTX \<Longrightarrow> 0 < BLOCK_M \<Longrightarrow> 0 \<le> Z \<Longrightarrow> 0 \<le> H \<Longrightarrow> 0 \<le> total_tiles N_CTX BLOCK_M Z H"
  by (simp add: total_tiles_def Let_def cdiv_nonneg)

lemma set_unit_tiles:
  fixes T P u :: int
  shows "set (unit_tiles T P u) = {u + j * P | j. 0 \<le> j \<and> j < tiles_per_sm T P u}"
proof -
  let ?n = "tiles_per_sm T P u"
  have "set (unit_tiles T P u) = (\<lambda>j. u + int j * P) ` {0..<nat ?n}"
    by (simp add: unit_tiles_def tile_loop_eq)
  also have "\<dots> = {u + j * P | j. 0 \<le> j \<and> j < ?n}"
  proof (intro set_eqI iffI)
    fix x assume "x \<in> (\<lambda>j. u + int j * P) ` {0..<nat ?n}"
    then obtain k where k: "k < nat ?n" "x = u + int k * P" by auto
    then have "0 \<le> int k \<and> int k < ?n" by simp
    with k show "x \<in> {u + j * P | j. 0 \<le> j \<and> j < ?n}" by blast
  next
    fix x assume "x \<in> {u + j * P | j. 0 \<le> j \<and> j < ?n}"
    then obtain j where j: "0 \<le> j" "j < ?n" "x = u + j * P" by blast
    then have "nat j < nat ?n" "x = u + int (nat j) * P" by simp_all
    then show "x \<in> (\<lambda>j. u + int j * P) ` {0..<nat ?n}" by (intro image_eqI[of _ _ "nat j"]) simp_all
  qed
  finally show ?thesis .
qed

lemma distinct_unit_tiles:
  fixes T P u :: int
  assumes "0 < P"
  shows "distinct (unit_tiles T P u)"
  using assms by (simp add: unit_tiles_def tile_loop_eq distinct_map inj_on_def)

lemma unit_tiles_member_iff:
  fixes T P u x :: int
  assumes "0 \<le> T" "0 < P" "0 \<le> u" "u < P"
  shows "x \<in> set (unit_tiles T P u) \<longleftrightarrow> 0 \<le> x \<and> x < T \<and> x mod P = u"
proof
  assume "x \<in> set (unit_tiles T P u)"
  then obtain j where j: "0 \<le> j" "j < tiles_per_sm T P u" "x = u + j * P"
    unfolding set_unit_tiles by blast
  then have "u + j * P < T"
    using tile_below_iff[OF assms(2-4) j(1), of T] tiles_per_sm_eq[OF assms(1,2), of u] by simp
  moreover have "0 \<le> u + j * P" using assms j by simp
  moreover have "(u + j * P) mod P = u" using assms by simp
  ultimately show "0 \<le> x \<and> x < T \<and> x mod P = u" using j by simp
next
  assume x: "0 \<le> x \<and> x < T \<and> x mod P = u"
  let ?j = "x div P"
  have xe: "x = u + ?j * P" using x by (metis add.commute div_mult_mod_eq)
  have j0: "0 \<le> ?j" using x assms by (simp add: pos_imp_zdiv_nonneg_iff)
  have "u + ?j * P < T" using xe x by simp
  then have "?j < tiles_per_sm T P u"
    using tile_below_iff[OF assms(2-4) j0, of T] tiles_per_sm_eq[OF assms(1,2), of u] by simp
  with j0 xe show "x \<in> set (unit_tiles T P u)" unfolding set_unit_tiles by blast
qed

lemma unit_tiles_disjoint:
  fixes T P u v :: int
  assumes "0 \<le> T" "0 < P" "0 \<le> u" "u < P" "0 \<le> v" "v < P" "u \<noteq> v"
  shows "set (unit_tiles T P u) \<inter> set (unit_tiles T P v) = {}"
  using assms by (auto simp: unit_tiles_member_iff)

lemma unit_tiles_cover:
  fixes T P :: int
  assumes "0 \<le> T" "0 < P"
  shows "(\<Union>u\<in>{0..<P}. set (unit_tiles T P u)) = {0..<T}"
proof (intro set_eqI iffI)
  fix x assume "x \<in> (\<Union>u\<in>{0..<P}. set (unit_tiles T P u))"
  then obtain u where "0 \<le> u" "u < P" "x \<in> set (unit_tiles T P u)" by auto
  then show "x \<in> {0..<T}" using unit_tiles_member_iff[OF assms, of u x] by simp
next
  fix x assume "x \<in> {0..<T}"
  then have "0 \<le> x" "x < T" by simp_all
  moreover have "0 \<le> x mod P" "x mod P < P" using assms by simp_all
  ultimately have "x \<in> set (unit_tiles T P (x mod P))"
    using unit_tiles_member_iff[OF assms, of "x mod P" x] by simp
  then show "x \<in> (\<Union>u\<in>{0..<P}. set (unit_tiles T P u))"
    using \<open>0 \<le> x mod P\<close> \<open>x mod P < P\<close> by auto
qed

text \<open>
  Claim C2. With \<open>total_tiles = ceil(N_CTX / BLOCK_M) * batch * heads\<close> tiles and
  \<open>num_progs\<close> execution units, unit \<open>u\<close> visits exactly the tile numbers
  \<open>u + j * num_progs\<close> for \<open>0 \<le> j < tiles_per_sm u\<close>, where \<open>tiles_per_sm u\<close> is
  \<open>total_tiles div num_progs\<close> plus one when \<open>u < total_tiles mod num_progs\<close>; no tile
  is visited twice by a unit, two different units share no tile, and together the units
  visit exactly the tiles \<open>0, ..., total_tiles - 1\<close>.
\<close>

theorem tile_scheduler_partition:
  fixes N_CTX BLOCK_M Z H num_progs T :: int
  assumes "0 \<le> N_CTX" "0 < BLOCK_M" "0 \<le> Z" "0 \<le> H" "0 < num_progs"
    and "T = total_tiles N_CTX BLOCK_M Z H"
  shows "(\<forall>u. 0 \<le> u \<and> u < num_progs \<longrightarrow>
            tiles_per_sm T num_progs u = T div num_progs + (if u < T mod num_progs then 1 else 0) \<and>
            set (unit_tiles T num_progs u) =
              {u + j * num_progs | j. 0 \<le> j \<and> j < tiles_per_sm T num_progs u} \<and>
            distinct (unit_tiles T num_progs u)) \<and>
         (\<forall>u v. 0 \<le> u \<and> u < num_progs \<and> 0 \<le> v \<and> v < num_progs \<and> u \<noteq> v \<longrightarrow>
            set (unit_tiles T num_progs u) \<inter> set (unit_tiles T num_progs v) = {}) \<and>
         (\<Union>u\<in>{0..<num_progs}. set (unit_tiles T num_progs u)) = {0..<T}"
proof -
  have T0: "0 \<le> T" using assms by (simp add: total_tiles_nonneg)
  have P0: "0 < num_progs" by fact
  show ?thesis
  proof (intro conjI allI impI)
    fix u :: int
    show "tiles_per_sm T num_progs u = T div num_progs + (if u < T mod num_progs then 1 else 0)"
      by (rule tiles_per_sm_eq[OF T0 P0])
    show "set (unit_tiles T num_progs u) =
        {u + j * num_progs | j. 0 \<le> j \<and> j < tiles_per_sm T num_progs u}"
      by (rule set_unit_tiles)
    show "distinct (unit_tiles T num_progs u)"
      by (rule distinct_unit_tiles[OF P0])
  next
    fix u v :: int
    assume "0 \<le> u \<and> u < num_progs \<and> 0 \<le> v \<and> v < num_progs \<and> u \<noteq> v"
    then show "set (unit_tiles T num_progs u) \<inter> set (unit_tiles T num_progs v) = {}"
      using unit_tiles_disjoint[OF T0 P0, of u v] by simp
  next
    show "(\<Union>u\<in>{0..<num_progs}. set (unit_tiles T num_progs u)) = {0..<T}"
      by (rule unit_tiles_cover[OF T0 P0])
  qed
qed

text \<open>
  The instance \<open>N_CTX = 300\<close>, \<open>BLOCK_M = 256\<close>, two batch elements, two heads and three
  units: eight tiles, of which units 0 and 1 take three and unit 2 takes two.
\<close>

lemma total_tiles_example: "total_tiles 300 256 2 2 = 8"
  by (simp add: total_tiles_def cdiv_def signed_divide_int_def)

lemma unit_tiles_example:
  "unit_tiles 8 3 0 = [0, 3, 6]" "unit_tiles 8 3 1 = [1, 4, 7]" "unit_tiles 8 3 2 = [2, 5]"
  by (simp_all add: unit_tiles_def tiles_per_sm_def signed_divide_int_def signed_modulo_int_def
      eval_nat_numeral)

theorem tile_scheduler_partition_witness:
  "unit_tiles (total_tiles 300 256 2 2) 3 0 = [0, 3, 6] \<and>
   unit_tiles (total_tiles 300 256 2 2) 3 1 = [1, 4, 7] \<and>
   unit_tiles (total_tiles 300 256 2 2) 3 2 = [2, 5] \<and>
   tiles_per_sm (total_tiles 300 256 2 2) 3 1 = 3 \<and>
   set (unit_tiles (total_tiles 300 256 2 2) 3 0) \<inter> set (unit_tiles (total_tiles 300 256 2 2) 3 1) = {} \<and>
   (\<Union>u\<in>{0..<3}. set (unit_tiles (total_tiles 300 256 2 2) 3 u)) = {0..<8}"
proof -
  have part: "(\<forall>u. 0 \<le> u \<and> u < 3 \<longrightarrow>
            tiles_per_sm 8 3 u = 8 div 3 + (if u < 8 mod 3 then 1 else 0) \<and>
            set (unit_tiles 8 3 u) = {u + j * 3 | j. 0 \<le> j \<and> j < tiles_per_sm 8 3 u} \<and>
            distinct (unit_tiles 8 3 u)) \<and>
         (\<forall>u v. 0 \<le> u \<and> u < 3 \<and> 0 \<le> v \<and> v < 3 \<and> u \<noteq> v \<longrightarrow>
            set (unit_tiles 8 3 u) \<inter> set (unit_tiles 8 3 v) = {}) \<and>
         (\<Union>u\<in>{0..<3}. set (unit_tiles 8 3 u)) = {0..<(8::int)}"
    by (rule tile_scheduler_partition[of 300 256 2 2 3 8]) (simp_all add: total_tiles_example)
  have "tiles_per_sm 8 3 1 = 8 div 3 + (if (1::int) < 8 mod 3 then 1 else 0)"
    using part[THEN conjunct1, rule_format, of 1] by simp
  then have t: "tiles_per_sm 8 3 1 = 3" by simp
  have d: "set (unit_tiles 8 3 0) \<inter> set (unit_tiles 8 3 1) = {}"
    using part[THEN conjunct2, THEN conjunct1, rule_format, of 0 1] by simp
  have c: "(\<Union>u\<in>{0..<3}. set (unit_tiles 8 3 u)) = {0..<(8::int)}"
    using part[THEN conjunct2, THEN conjunct2] .
  show ?thesis
    by (simp only: total_tiles_example unit_tiles_example t d c) simp
qed

section \<open>Buffer index and phase\<close>

lemma bufidx_phase_eq:
  assumes "0 \<le> count" "1 \<le> N"
  shows "get_bufidx_phase count N = (count mod N, (count div N) mod 2)"
  using assms by (simp add: get_bufidx_phase_def Let_def sdiv_nonneg smod_nonneg and_one_eq)

lemma mod_succ_cases:
  fixes c N :: int
  assumes "1 \<le> N"
  shows "(c + 1) mod N = (if c mod N = N - 1 then 0 else c mod N + 1)"
    and "(c + 1) div N = (if c mod N = N - 1 then c div N + 1 else c div N)"
proof -
  have N0: "N \<noteq> 0" using assms by simp
  have m: "0 \<le> c mod N" "c mod N < N" using assms by simp_all
  have split: "c + 1 = (c mod N + 1) + (c div N) * N"
    using div_mult_mod_eq[of c N] by linarith
  have md: "(c + 1) mod N = (c mod N + 1) mod N"
    by (simp add: mod_add_left_eq)
  have "(c + 1) div N = ((c mod N + 1) + (c div N) * N) div N"
    by (rule arg_cong[where f = "\<lambda>x. x div N", OF split])
  also have "\<dots> = c div N + (c mod N + 1) div N"
    by (rule div_mult_self1[OF N0])
  finally have dv: "(c + 1) div N = c div N + (c mod N + 1) div N" .
  show "(c + 1) mod N = (if c mod N = N - 1 then 0 else c mod N + 1)"
  proof (cases "c mod N = N - 1")
    case True
    then have "c mod N + 1 = N" by simp
    then show ?thesis using md True by simp
  next
    case False
    then have "c mod N + 1 < N" using m by simp
    then have "(c mod N + 1) mod N = c mod N + 1" using m by (intro mod_pos_pos_trivial) simp_all
    then show ?thesis using md False by simp
  qed
  show "(c + 1) div N = (if c mod N = N - 1 then c div N + 1 else c div N)"
  proof (cases "c mod N = N - 1")
    case True
    then have "c mod N + 1 = N" by simp
    then have "(c mod N + 1) div N = 1" using N0 by simp
    then show ?thesis using dv True by simp
  next
    case False
    then have "c mod N + 1 < N" using m by simp
    then have "(c mod N + 1) div N = 0" using m by (intro div_pos_pos_trivial) simp_all
    then show ?thesis using dv False by simp
  qed
qed

text \<open>
  Claim C3. For a counter \<open>count \<ge> 0\<close> and \<open>N \<ge> 1\<close> buffers the helper returns
  \<open>(count mod N, (count div N) mod 2)\<close>. The index lies in \<open>0, ..., N - 1\<close> and the
  phase is a bit; one increment of the counter moves the index to the next slot, back to
  0 after slot \<open>N - 1\<close>, and flips the phase exactly at that wrap-around, so the phase
  toggles once every \<open>N\<close> increments.
\<close>

theorem get_bufidx_phase_spec:
  assumes "0 \<le> count" "1 \<le> N"
  shows "get_bufidx_phase count N = (count mod N, (count div N) mod 2) \<and>
         0 \<le> fst (get_bufidx_phase count N) \<and> fst (get_bufidx_phase count N) < N \<and>
         snd (get_bufidx_phase count N) \<in> {0, 1} \<and>
         fst (get_bufidx_phase (count + 1) N) =
           (if fst (get_bufidx_phase count N) = N - 1 then 0
            else fst (get_bufidx_phase count N) + 1) \<and>
         snd (get_bufidx_phase (count + 1) N) =
           (if fst (get_bufidx_phase count N) = N - 1 then 1 - snd (get_bufidx_phase count N)
            else snd (get_bufidx_phase count N)) \<and>
         get_bufidx_phase (count + N) N =
           (fst (get_bufidx_phase count N), 1 - snd (get_bufidx_phase count N))"
proof -
  have e: "get_bufidx_phase count N = (count mod N, (count div N) mod 2)"
    by (rule bufidx_phase_eq[OF assms])
  have e1: "get_bufidx_phase (count + 1) N = ((count + 1) mod N, ((count + 1) div N) mod 2)"
    using assms by (intro bufidx_phase_eq) simp_all
  have eN: "get_bufidx_phase (count + N) N = ((count + N) mod N, ((count + N) div N) mod 2)"
    using assms by (intro bufidx_phase_eq) simp_all
  have N0: "N \<noteq> 0" using assms by simp
  have flip: "(x + 1) mod 2 = 1 - x mod 2" for x :: int
    by presburger
  have dN: "(count + N) div N = count div N + 1" using N0 by simp
  have m: "0 \<le> count mod N" "count mod N < N" using assms by simp_all
  have b: "(count div N) mod 2 = 0 \<or> (count div N) mod 2 = 1" by presburger
  have s1: "(count + 1) mod N = (if count mod N = N - 1 then 0 else count mod N + 1)"
    by (rule mod_succ_cases(1)[OF assms(2)])
  have s2: "((count + 1) div N) mod 2 =
      (if count mod N = N - 1 then 1 - (count div N) mod 2 else (count div N) mod 2)"
    by (simp add: mod_succ_cases(2)[OF assms(2)] flip)
  have s3: "(count + N) mod N = count mod N" by simp
  have s4: "((count + N) div N) mod 2 = 1 - (count div N) mod 2"
    by (simp only: dN flip)
  show ?thesis
    unfolding e e1 eN fst_conv snd_conv s1 s2 s3 s4
    using m b by auto
qed

theorem get_bufidx_phase_spec_witness:
  "get_bufidx_phase 7 3 = (1, 0) \<and> get_bufidx_phase 8 3 = (2, 0) \<and>
   get_bufidx_phase 9 3 = (0, 1) \<and> get_bufidx_phase 10 3 = (1, 1)"
proof -
  have a: "get_bufidx_phase 7 3 = (7 mod 3, (7 div 3) mod 2)"
    using get_bufidx_phase_spec[of 7 3] by simp
  have b: "get_bufidx_phase 8 3 = (8 mod 3, (8 div 3) mod 2)"
    using get_bufidx_phase_spec[of 8 3] by simp
  have c: "get_bufidx_phase 9 3 = (9 mod 3, (9 div 3) mod 2)"
    using get_bufidx_phase_spec[of 9 3] by simp
  have d: "get_bufidx_phase (7 + 3) 3 = (fst (get_bufidx_phase 7 3), 1 - snd (get_bufidx_phase 7 3))"
    using get_bufidx_phase_spec[of 7 3] by simp
  show ?thesis using a b c d by simp
qed

section \<open>Accumulate flags of the matrix-multiply partition\<close>

lemma acc_flags_append: "acc_flags b (es @ fs) = acc_flags b es @ acc_flags b fs"
  by (induction b es rule: acc_flags.induct) simp_all

lemma dot_inner_step_flags:
  "acc_flags o0_buf (fst (dot_inner_step nkv nqk no bq bo po s)) = [True]"
  "acc_flags o1_buf (fst (dot_inner_step nkv nqk no bq bo po s)) = [\<not> first s]"
  "first (snd (dot_inner_step nkv nqk no bq bo po s)) = False"
  by (simp_all add: dot_inner_step_def Let_def split_beta)

lemma dot_inner_loop_o0:
  "acc_flags o0_buf (fst (dot_inner_loop nkv nqk no bq bo po its s)) = replicate (length its) True"
  by (induction its arbitrary: s)
    (simp_all add: split_beta Let_def acc_flags_append dot_inner_step_flags)

lemma dot_inner_loop_first:
  "first (snd (dot_inner_loop nkv nqk no bq bo po its s)) = (first s \<and> its = [])"
proof (induction its arbitrary: s)
  case Nil
  show ?case by simp
next
  case (Cons it its)
  show ?case by (simp add: split_beta Let_def Cons.IH dot_inner_step_flags)
qed

lemma dot_inner_loop_o1:
  "acc_flags o1_buf (fst (dot_inner_loop nkv nqk no bq bo po its s)) @
     [\<not> first (snd (dot_inner_loop nkv nqk no bq bo po its s))] =
   (\<not> first s) # replicate (length its) True"
proof (induction its arbitrary: s)
  case Nil
  show ?case by simp
next
  case (Cons it its)
  let ?s' = "snd (dot_inner_step nkv nqk no bq bo po s)"
  have "acc_flags o1_buf (fst (dot_inner_loop nkv nqk no bq bo po (it # its) s)) @
     [\<not> first (snd (dot_inner_loop nkv nqk no bq bo po (it # its) s))] =
     [\<not> first s] @ (acc_flags o1_buf (fst (dot_inner_loop nkv nqk no bq bo po its ?s')) @
     [\<not> first (snd (dot_inner_loop nkv nqk no bq bo po its ?s'))])"
    by (simp add: split_beta Let_def acc_flags_append dot_inner_step_flags)
  also have "\<dots> = [\<not> first s] @ ((\<not> first ?s') # replicate (length its) True)"
    by (simp only: Cons.IH)
  also have "\<dots> = (\<not> first s) # replicate (length (it # its)) True"
    by (simp add: dot_inner_step_flags)
  finally show ?case .
qed

lemma dot_tile_flags:
  "acc_flags o0_buf (fst (dot_tile nq nkv nqk no bn klen st)) =
     False # replicate (length (range_steps bn klen bn)) True"
  "acc_flags o1_buf (fst (dot_tile nq nkv nqk no bn klen st)) =
     False # replicate (length (range_steps bn klen bn)) True"
proof -
  show "acc_flags o0_buf (fst (dot_tile nq nkv nqk no bn klen st)) =
     False # replicate (length (range_steps bn klen bn)) True"
    by (simp add: dot_tile_def Let_def split_beta acc_flags_append dot_inner_loop_o0)
  show "acc_flags o1_buf (fst (dot_tile nq nkv nqk no bn klen st)) =
     False # replicate (length (range_steps bn klen bn)) True"
    by (simp add: dot_tile_def Let_def split_beta acc_flags_append dot_inner_loop_o1)
qed

lemma dot_visit_cases:
  "fst (dot_visit c t st) = [] \<or>
   (\<exists>klen. fst (dot_visit c t st) =
      fst (dot_tile (arg_NUM_BUFFERS_Q c) (arg_NUM_BUFFERS_KV c) (arg_NUM_BUFFERS_QK c) (arg_NUM_BUFFERS_O c)
             (arg_BLOCK_N c) klen st))"
  by (auto simp: dot_visit_def Let_def split_beta)

lemma dot_tiles_flags:
  assumes "es \<in> set (dot_tiles c ts st)"
  shows "es = [] \<or> (\<exists>n. acc_flags o0_buf es = False # replicate n True \<and>
                         acc_flags o1_buf es = False # replicate n True)"
  using assms
proof (induction ts arbitrary: st)
  case Nil
  then show ?case by simp
next
  case (Cons t ts)
  from Cons.prems have "es = fst (dot_visit c t st) \<or> es \<in> set (dot_tiles c ts (snd (dot_visit c t st)))"
    by (simp add: split_beta)
  then show ?case
  proof
    assume e: "es = fst (dot_visit c t st)"
    from dot_visit_cases[of c t st] show ?thesis
    proof
      assume "fst (dot_visit c t st) = []"
      with e show ?thesis by simp
    next
      assume "\<exists>klen. fst (dot_visit c t st) =
        fst (dot_tile (arg_NUM_BUFFERS_Q c) (arg_NUM_BUFFERS_KV c) (arg_NUM_BUFFERS_QK c) (arg_NUM_BUFFERS_O c)
               (arg_BLOCK_N c) klen st)"
      then obtain klen where "es =
        fst (dot_tile (arg_NUM_BUFFERS_Q c) (arg_NUM_BUFFERS_KV c) (arg_NUM_BUFFERS_QK c) (arg_NUM_BUFFERS_O c)
               (arg_BLOCK_N c) klen st)"
        using e by auto
      then have "acc_flags o0_buf es = False # replicate (length (range_steps (arg_BLOCK_N c) klen (arg_BLOCK_N c))) True"
        "acc_flags o1_buf es = False # replicate (length (range_steps (arg_BLOCK_N c) klen (arg_BLOCK_N c))) True"
        by (simp_all only: dot_tile_flags)
      then show ?thesis by blast
    qed
  next
    assume "es \<in> set (dot_tiles c ts (snd (dot_visit c t st)))"
    then show ?thesis by (rule Cons.IH)
  qed
qed

text \<open>
  Claim C5. In the matrix-multiply partition of the forward kernel, within every processed
  tile the first matrix multiply into each of the output accumulators \<open>o0\<close> and \<open>o1\<close>
  is issued with \<open>use_acc = False\<close> and every later one into the same accumulator with
  \<open>use_acc = True\<close>: with \<open>n\<close> passes of the inner loop both accumulators see the flags
  \<open>False, True, ..., True\<close> (\<open>n\<close> times \<open>True\<close>). A tile starts its inner loop with
  \<open>first = True\<close>, and after the loop \<open>first\<close> still holds exactly when the loop body
  never ran. A skipped tile issues nothing.
\<close>

theorem dot_partition_accumulate_flags:
  "(\<forall>es \<in> set (dot_partition c Z num_progs prog_id).
      es = [] \<or> (\<exists>n. acc_flags o0_buf es = False # replicate n True \<and>
                       acc_flags o1_buf es = False # replicate n True)) \<and>
   acc_flags o0_buf (fst (dot_tile nq nkv nqk no bn klen st)) =
      False # replicate (length (range_steps bn klen bn)) True \<and>
   acc_flags o1_buf (fst (dot_tile nq nkv nqk no bn klen st)) =
      False # replicate (length (range_steps bn klen bn)) True \<and>
   first (snd (dot_inner_loop nkv nqk no bq bo po its s)) = (first s \<and> its = [])"
proof (intro conjI ballI)
  fix es assume "es \<in> set (dot_partition c Z num_progs prog_id)"
  then show "es = [] \<or> (\<exists>n. acc_flags o0_buf es = False # replicate n True \<and>
                       acc_flags o1_buf es = False # replicate n True)"
    unfolding dot_partition_def by (rule dot_tiles_flags)
qed (simp_all only: dot_tile_flags dot_inner_loop_first)

lemma example_partition:
  "dot_partition example_params 1 1 0 =
     [fst (dot_tile 1 3 1 1 128 256
        \<lparr>accum_cnt_q = 0, accum_cnt_kv = 0, accum_cnt_o = 0, accum_cnt_qk = 0, accum_cnt_outer = 0\<rparr>)]"
  by (simp add: dot_partition_def example_params_def total_tiles_def cdiv_def unit_tiles_def
      tiles_per_sm_def dot_visit_def compute_qlen_def signed_divide_int_def signed_modulo_int_def
      Let_def split_beta)

lemma example_range: "range_steps 128 256 128 = [128]"
  by (simp add: range_steps_def)

theorem dot_partition_accumulate_flags_witness:
  "map (acc_flags o0_buf) (dot_partition example_params 1 1 0) = [[False, True]] \<and>
   map (acc_flags o1_buf) (dot_partition example_params 1 1 0) = [[False, True]]"
proof -
  let ?st = "\<lparr>accum_cnt_q = 0, accum_cnt_kv = 0, accum_cnt_o = 0, accum_cnt_qk = 0, accum_cnt_outer = 0\<rparr>"
  have f: "acc_flags o0_buf (fst (dot_tile 1 3 1 1 128 256 ?st)) =
        False # replicate (length (range_steps 128 256 128)) True \<and>
      acc_flags o1_buf (fst (dot_tile 1 3 1 1 128 256 ?st)) =
        False # replicate (length (range_steps 128 256 128)) True"
    using dot_partition_accumulate_flags[of example_params 1 1 0 1 3 1 1 128 256 ?st 0 0 0 "[]"
        "\<lparr>cnt_kv = 0, cnt_qk = 0, cnt_qk1 = 0, cnt_o = 0, cnt_o1 = 0, first = True, v_view = 0\<rparr>"]
    by blast
  show ?thesis
    by (simp add: example_partition f example_range)
qed

section \<open>The activation stored by the forward kernel\<close>

lemma activation_store_closed_form:
  "activation_store a s (x, y) =
     (x * tanh (0.0356774081 * x ^ 3 + 0.7978845608 * x) + x,
      y * tanh (0.0356774081 * y ^ 3 + 0.7978845608 * y) + y)"
proof -
  have "(0.0356774081 * (x * x) + 0.7978845608) * x = 0.0356774081 * x ^ 3 + 0.7978845608 * x"
    for x :: real
    by (simp add: power3_eq_cube algebra_simps)
  then show ?thesis
    by (simp add: activation_store_def Let_def mul_f32x2_def fma_f32x2_def tanh_approx_fp32_def)
qed

lemma fast_gelu_closed_form:
  "fast_gelu x = x * tanh (0.0356774081 * x ^ 3 + 0.7978845608 * x) + x"
proof -
  have "(0.0356774081 * (x * x) + 0.7978845608) * x = 0.0356774081 * x ^ 3 + 0.7978845608 * x"
    by (simp add: power3_eq_cube algebra_simps)
  then show ?thesis
    by (simp add: fast_gelu_def Let_def mul_f32x2_def fma_f32x2_def tanh_approx_fp32_def)
qed

text \<open>
  Claim C4 says that the stored value is the activation chosen by the compile-time
  selector. It fails: with the selector at 0, which the backward kernel and the default
  \<^verbatim>\<open>activation="raw"\<close> treat as the identity, the score 1 is stored as
  \<open>1 + tanh 0.8335619689\<close>, not as 1.
\<close>

theorem activation_store_ignores_selector_counterexample:
  "fst (activation_store 0 1 (1, 1)) \<noteq> 1"
proof -
  have "fst (activation_store 0 1 (1, 1)) = tanh (0.0356774081 + 0.7978845608) + 1"
    by (simp add: activation_store_closed_form)
  moreover have "tanh (0.0356774081 + 0.7978845608 :: real) \<noteq> 0"
    by (simp add: tanh_real_zero_iff)
  ultimately show ?thesis by simp
qed

text \<open>
  Claim C4, amended. For every raw score \<open>x\<close> the activation partitions of the forward
  kernel store \<open>x * tanh (c1 * x^3 + c0 * x) + x\<close> with \<open>c1 = 0.0356774081\<close> and
  \<open>c0 = 0.7978845608\<close> into the reused score buffer, in both halves of the tile and for
  every value of the compile-time activation selector: the selector is not consulted. The
  value is the one \<^verbatim>\<open>fast_gelu\<close> computes.
\<close>

theorem activation_store_fast_gelu:
  "activation_store activation_enum_int qk_scale (x, y) =
     (x * tanh (0.0356774081 * x ^ 3 + 0.7978845608 * x) + x,
      y * tanh (0.0356774081 * y ^ 3 + 0.7978845608 * y) + y) \<and>
   activation_store activation_enum_int qk_scale (x, y) = (fast_gelu x, fast_gelu y)"
  by (simp add: activation_store_closed_form fast_gelu_closed_form)

section \<open>Masking in the backward activation computation\<close>

lemma bwd_masking_zero:
  assumes "(MASK \<and> start_n + r > start_m + c) \<or>
           (\<exists>w. WINDOW_SIZE = Some w \<and> \<bar>(start_m + c) - (start_n + r)\<bar> > w)"
  shows "bwd_masking MASK WINDOW_SIZE start_m start_n pT r c = 0"
  using assms
  by (auto simp: bwd_masking_def autoregressive_masking_def sliding_window_masking_def Let_def
      split: option.splits)

lemma bwd_masking_keep:
  assumes "\<not> (MASK \<and> start_n + r > start_m + c)"
    and "\<forall>w. WINDOW_SIZE = Some w \<longrightarrow> \<bar>(start_m + c) - (start_n + r)\<bar> \<le> w"
  shows "bwd_masking MASK WINDOW_SIZE start_m start_n pT r c = pT r c"
  using assms
  by (auto simp: bwd_masking_def autoregressive_masking_def sliding_window_masking_def Let_def
      split: option.splits)

lemma bwd_ppT_zero:
  assumes "pT r c = 0"
  shows "bwd_ppT gelu a pT r c = (if a = 1 then gelu 0 else 0)"
  using assms by (simp add: bwd_ppT_def)

text \<open>
  What the masking code does, in terms of the index vectors of the function: with
  \<open>offs_m[c] = start_m + c\<close> and \<open>offs_n[r] = start_n + r\<close>, a position with
  \<open>MASK\<close> set and \<open>offs_n[r] > offs_m[c]\<close>, or with a window and
  \<open>|offs_m[c] - offs_n[r]| > WINDOW_SIZE\<close>, has its score set to zero before the
  activation and its gradient factor set to zero before the product with \<open>dpT\<close>; a
  position that neither rule hits keeps its score. Both index vectors are the same in
  every step of the loop.
\<close>

lemma bwd_masking_by_offsets:
  "((MASK \<and> start_n + r > start_m + c) \<or>
    (\<exists>w. WINDOW_SIZE = Some w \<and> \<bar>(start_m + c) - (start_n + r)\<bar> > w) \<longrightarrow>
      bwd_scores MASK WINDOW_SIZE start_m start_n qk_tile r c = 0 \<and>
      bwd_grad gelu_grad MASK WINDOW_SIZE a start_m start_n
        (bwd_scores MASK WINDOW_SIZE start_m start_n qk_tile) r c = 0 \<and>
      fst (bwd_activation_step gelu gelu_grad MASK WINDOW_SIZE a start_m start_n
             qk_tile dpT_tile) r c = (if a = 1 then gelu 0 else 0)) \<and>
   (\<not> (MASK \<and> start_n + r > start_m + c) \<and>
    (\<forall>w. WINDOW_SIZE = Some w \<longrightarrow> \<bar>(start_m + c) - (start_n + r)\<bar> \<le> w) \<longrightarrow>
      bwd_scores MASK WINDOW_SIZE start_m start_n qk_tile r c = qk_tile r c)"
proof (intro conjI impI)
  assume hit: "(MASK \<and> start_n + r > start_m + c) \<or>
          (\<exists>w. WINDOW_SIZE = Some w \<and> \<bar>(start_m + c) - (start_n + r)\<bar> > w)"
  show z: "bwd_scores MASK WINDOW_SIZE start_m start_n qk_tile r c = 0"
    by (simp add: bwd_scores_def bwd_masking_zero[OF hit])
  show "bwd_grad gelu_grad MASK WINDOW_SIZE a start_m start_n
              (bwd_scores MASK WINDOW_SIZE start_m start_n qk_tile) r c = 0"
    by (simp add: bwd_grad_def Let_def bwd_masking_zero[OF hit])
  show "fst (bwd_activation_step gelu gelu_grad MASK WINDOW_SIZE a start_m start_n
                   qk_tile dpT_tile) r c = (if a = 1 then gelu 0 else 0)"
    using bwd_ppT_zero[of "bwd_scores MASK WINDOW_SIZE start_m start_n qk_tile" r c gelu a] z
    by (simp add: bwd_activation_step_def Let_def)
next
  assume "\<not> (MASK \<and> start_n + r > start_m + c) \<and>
          (\<forall>w. WINDOW_SIZE = Some w \<longrightarrow> \<bar>(start_m + c) - (start_n + r)\<bar> \<le> w)"
  then show "bwd_scores MASK WINDOW_SIZE start_m start_n qk_tile r c = qk_tile r c"
    by (simp add: bwd_scores_def bwd_masking_keep)
qed



section \<open>The forward entry point\<close>

subsection \<open>A power of two\<close>

lemma log2_128: "\<lceil>log 2 (128::real)\<rceil> = 7"
proof -
  have "log 2 (128::real) = log 2 (2 ^ 7)" by simp
  also have "\<dots> = 7" by (simp only: log_pow_cancel)
  finally show ?thesis by simp
qed

lemma np2_128: "next_power_of_2 128 = Inr 128"
  by (simp add: next_power_of_2_def log2_128)

lemma padded_launch:
  "gdpa_forward_tlx_launch env padded_call =
     Inr (forward_kernel_args env padded_call 128, forward_grid env padded_call, 2)"
  by (simp add: gdpa_forward_tlx_launch_def padded_call_def np2_128 torch_empty_rows_def
      forward_output_rows_def)

lemma padded_grid: "forward_grid (example_env\<lparr>env_torch_empty := u\<rparr>) padded_call = 1"
  by (simp add: forward_grid_def example_env_def padded_call_def triton_cdiv_def forward_BATCH_def)


subsection \<open>The forward kernel does not read the score scale\<close>

lemma activation_store_scale: "activation_store a s qk = activation_store a s' qk"
  by (simp add: activation_store_def)

lemma activation_tile_scale: "activation_tile (c\<lparr>arg_qk_scale := s\<rparr>) = activation_tile c"
  by (rule ext) (simp add: activation_tile_def activation_store_def Let_def cong: if_cong)

lemma tile_coordinates_scale:
  "tile_coordinates (c\<lparr>arg_qk_scale := s\<rparr>) tile_idx = tile_coordinates c tile_idx"
  by (simp add: tile_coordinates_def Let_def)

lemma tile_processed_scale:
  "tile_processed (c\<lparr>arg_qk_scale := s\<rparr>) tile_idx = tile_processed c tile_idx"
  by (simp add: tile_processed_def tile_coordinates_scale Let_def)

lemma tile_in_step_scale:
  "tile_in_step (c\<lparr>arg_qk_scale := s\<rparr>) tile_idx = tile_in_step c tile_idx"
  by (simp add: tile_in_step_def tile_coordinates_scale tile_processed_scale Let_def)

lemma desc_scale:
  "qo_desc (c\<lparr>arg_qk_scale := s\<rparr>) e = qo_desc c e"
  "kv_desc (c\<lparr>arg_qk_scale := s\<rparr>) = kv_desc c"
  by (simp_all add: qo_desc_def kv_desc_def)

lemma tile_results_scale:
  "tile_results dot (c\<lparr>arg_qk_scale := s\<rparr>) tile_idx = tile_results dot c tile_idx"
  by (simp add: tile_results_def tile_coordinates_scale desc_scale activation_tile_scale Let_def)

lemma fwd_tile_scale:
  "fwd_tile dot (c\<lparr>arg_qk_scale := s\<rparr>) tile_idx Out = fwd_tile dot c tile_idx Out"
  by (simp add: fwd_tile_def tile_coordinates_scale tile_processed_scale desc_scale
      tile_results_scale Let_def)

lemma fwd_tiles_scale:
  "fwd_tiles dot (c\<lparr>arg_qk_scale := s\<rparr>) ts Out = fwd_tiles dot c ts Out"
  by (induction ts arbitrary: Out) (simp_all add: tile_in_step_scale fwd_tile_scale)

lemma launch_tiles_scale: "launch_tiles (c\<lparr>arg_qk_scale := s\<rparr>) n = launch_tiles c n"
  by (simp add: launch_tiles_def)

lemma kernel_scale:
  "gdpa_kernel_tma_ws_blackwell dot (c\<lparr>arg_qk_scale := s\<rparr>) n Out =
   gdpa_kernel_tma_ws_blackwell dot c n Out"
  by (simp add: gdpa_kernel_tma_ws_blackwell_def fwd_tiles_scale launch_tiles_scale)

lemma forward_kernel_args_scale:
  "forward_kernel_args env (p\<lparr>p_qk_scale := a\<rparr>) np2 =
     (forward_kernel_args env p np2)\<lparr>arg_qk_scale := (case a of None \<Rightarrow> 1 | Some s \<Rightarrow> s)\<rparr>"
  by (simp add: forward_kernel_args_def Let_def forward_BATCH_def split: option.splits)

lemma forward_grid_scale: "forward_grid env (p\<lparr>p_qk_scale := a\<rparr>) = forward_grid env p"
  by (simp add: forward_grid_def forward_BATCH_def Let_def)

lemma forward_output_rows_scale:
  "forward_output_rows (p\<lparr>p_qk_scale := a\<rparr>) = forward_output_rows p"
  by (simp add: forward_output_rows_def forward_BATCH_def)

lemma forward_scale_one:
  "gdpa_forward_tlx env (p\<lparr>p_qk_scale := a\<rparr>) = gdpa_forward_tlx env p"
  by (simp add: gdpa_forward_tlx_def gdpa_forward_tlx_launch_def forward_kernel_args_scale
      forward_grid_scale forward_output_rows_scale kernel_scale split: sum.splits)



subsection \<open>What the launch stores\<close>

lemma descriptor_store_covers:
  "descriptor_store mem d block off t a =
     (if block_covers d block off a
      then t (a div desc_stride0 d - fst off) (a mod desc_stride0 d - snd off)
      else mem a)"
  by (simp add: descriptor_store_def block_covers_def Let_def)

lemma fwd_tile_not_stored:
  assumes "\<not> tile_stores c tile_idx a"
  shows "fwd_tile dot c tile_idx Out a = Out a"
  using assms
  by (simp add: fwd_tile_def tile_stores_def Let_def split_beta descriptor_store_covers)

lemma fwd_tile_stored:
  assumes "tile_stores c tile_idx a"
  shows "fwd_tile dot c tile_idx Out a = fwd_tile dot c tile_idx Out' a"
  using assms
  by (auto simp: fwd_tile_def tile_stores_def Let_def split_beta descriptor_store_covers)


lemma fwd_tiles_agree:
  assumes "fwd_tiles dot c ts Out1 = Some out1"
    and "fwd_tiles dot c ts Out2 = Some out2"
    and "Out1 a = Out2 a \<or> (\<exists>t \<in> set ts. tile_stores c t a)"
  shows "out1 a = out2 a"
  using assms
proof (induction ts arbitrary: Out1 Out2)
  case Nil
  then show ?case by simp
next
  case (Cons t ts)
  from Cons.prems(1) have r1: "fwd_tiles dot c ts (fwd_tile dot c t Out1) = Some out1"
    by (simp split: if_splits)
  from Cons.prems(2) have r2: "fwd_tiles dot c ts (fwd_tile dot c t Out2) = Some out2"
    by (simp split: if_splits)
  have "fwd_tile dot c t Out1 a = fwd_tile dot c t Out2 a \<or> (\<exists>t \<in> set ts. tile_stores c t a)"
  proof (cases "tile_stores c t a")
    case True
    then show ?thesis using fwd_tile_stored[of c t a dot Out1 Out2] by simp
  next
    case False
    then show ?thesis using Cons.prems(3) by (auto simp: fwd_tile_not_stored)
  qed
  then show ?case by (rule Cons.IH[OF r1 r2])
qed

lemma fwd_tiles_defined:
  "(fwd_tiles dot c ts Out1 = None) = (fwd_tiles dot c ts Out2 = None)"
  by (induction ts arbitrary: Out1 Out2) auto

lemma forward_kernel_args_empty:
  "forward_kernel_args (env\<lparr>env_torch_empty := u\<rparr>) p np2 = forward_kernel_args env p np2"
  by (simp add: forward_kernel_args_def)

lemma forward_grid_empty: "forward_grid (env\<lparr>env_torch_empty := u\<rparr>) p = forward_grid env p"
  by (simp add: forward_grid_def)

lemma forward_launch_empty:
  "gdpa_forward_tlx_launch (env\<lparr>env_torch_empty := u\<rparr>) p = gdpa_forward_tlx_launch env p"
  by (simp add: gdpa_forward_tlx_launch_def forward_kernel_args_empty forward_grid_empty
      split: sum.splits)



text \<open>
  The two statements together: two calls that differ in \<^verbatim>\<open>qk_scale\<close> and in the
  content of the memory \<^verbatim>\<open>torch.empty\<close> hands out agree at every element some
  processed tile stores to.
\<close>

lemma forward_scale_agree_where_stored:
  assumes "gdpa_forward_tlx_launch env p = Inr (c, grid, o_rows)"
    and "gdpa_forward_tlx env (p\<lparr>p_qk_scale := s\<rparr>) = Inr (Some out1)"
    and "gdpa_forward_tlx (env\<lparr>env_torch_empty := u\<rparr>) (p\<lparr>p_qk_scale := s'\<rparr>) = Inr (Some out2)"
    and "launch_stores c grid a"
  shows "out1 a = out2 a"
proof -
  have f1: "gdpa_forward_tlx env p = Inr (Some out1)"
    using assms(2) by (simp only: forward_scale_one)
  have f2: "gdpa_forward_tlx (env\<lparr>env_torch_empty := u\<rparr>) p = Inr (Some out2)"
    using assms(3) by (simp only: forward_scale_one)
  have k1: "fwd_tiles (env_async_dot env) c (launch_tiles c grid) (env_torch_empty env) = Some out1"
    using assms(1) f1
    by (simp add: gdpa_forward_tlx_def gdpa_kernel_tma_ws_blackwell_def)
  have k2: "fwd_tiles (env_async_dot env) c (launch_tiles c grid) u = Some out2"
    using assms(1) f2
    by (simp add: gdpa_forward_tlx_def gdpa_kernel_tma_ws_blackwell_def forward_launch_empty)
  from assms(4) have "\<exists>t \<in> set (launch_tiles c grid). tile_stores c t a"
    by (simp add: launch_stores_def)
  then show ?thesis using fwd_tiles_agree[OF k1 k2] by simp
qed

subsection \<open>The padded call\<close>









lemma example_env_empty: "example_env\<lparr>env_torch_empty := (\<lambda>a. 0)\<rparr> = example_env"
  by (simp add: example_env_def)




subsection \<open>The host side checks no offsets\<close>

lemma forward_launch_offsets:
  "gdpa_forward_tlx_launch env
     (p\<lparr>p_query_offset := (p_query_offset p)\<lparr>off_data := f\<rparr>,
        p_key_offset := (p_key_offset p)\<lparr>off_data := g\<rparr>\<rparr>) = Inl e \<longleftrightarrow>
   gdpa_forward_tlx_launch env p = Inl e"
  by (simp add: gdpa_forward_tlx_launch_def forward_output_rows_def forward_BATCH_def
      split: sum.splits)

lemma forward_launch_fails_iff:
  "isl (gdpa_forward_tlx_launch env p) \<longleftrightarrow>
     dim2 (p_query p) = 0 \<or>
     (p_use_start_end_offsets p \<and>
        (p_total_num_objects p = None \<or> (\<exists>n. p_total_num_objects p = Some n \<and> n < 0))) \<or>
     (p_broadcast_q p \<and> \<not> p_use_start_end_offsets p \<and>
        (int (off_size (p_key_offset p)) - 1) * int (dim0 (p_query p)) < 0) \<or>
     dim1 (p_key p) = 0 \<or>
     int (dim1 (p_query p)) mod int (dim1 (p_key p)) \<noteq> 0"
  by (auto simp: gdpa_forward_tlx_launch_def next_power_of_2_def torch_empty_rows_def
      forward_output_rows_def forward_BATCH_def split: sum.splits option.splits if_splits)

text \<open>
  Claim C8, amended. The host side of \<^verbatim>\<open>gdpa_forward_tlx\<close> never reads the values of
  the offsets: replacing them, at the same lengths, changes neither whether the call fails
  before the launch nor the exception. The call fails before the launch exactly when the
  head dimension of the query is 0 (\<^verbatim>\<open>ValueError\<close> from \<^verbatim>\<open>next_power_of_2\<close>), the row
  count given to \<^verbatim>\<open>torch.empty\<close> is missing or negative, the key has no heads
  (\<^verbatim>\<open>ZeroDivisionError\<close>), or the query heads are not a multiple of the key heads
  (the only assertion). So a call whose offsets violate
  \<open>sum (end[i] - begin[i]) = total rows\<close> is launched like the same call with
  conforming offsets, and no error is ever raised on account of the offsets.
\<close>

theorem forward_launch_ignores_offset_values:
  "(gdpa_forward_tlx_launch env
      (p\<lparr>p_query_offset := (p_query_offset p)\<lparr>off_data := f\<rparr>,
         p_key_offset := (p_key_offset p)\<lparr>off_data := g\<rparr>\<rparr>) = Inl e \<longleftrightarrow>
    gdpa_forward_tlx_launch env p = Inl e) \<and>
   (isl (gdpa_forward_tlx_launch env p) \<longleftrightarrow>
     dim2 (p_query p) = 0 \<or>
     (p_use_start_end_offsets p \<and>
        (p_total_num_objects p = None \<or> (\<exists>n. p_total_num_objects p = Some n \<and> n < 0))) \<or>
     (p_broadcast_q p \<and> \<not> p_use_start_end_offsets p \<and>
        (int (off_size (p_key_offset p)) - 1) * int (dim0 (p_query p)) < 0) \<or>
     dim1 (p_key p) = 0 \<or>
     int (dim1 (p_query p)) mod int (dim1 (p_key p)) \<noteq> 0)"
  by (intro conjI forward_launch_offsets forward_launch_fails_iff)

text \<open>
  The padded call passes the host side; the same call with a key tensor without heads
  does not.
\<close>

theorem forward_launch_ignores_offset_values_witness:
  "\<not> isl (gdpa_forward_tlx_launch example_env padded_call) \<and>
   isl (gdpa_forward_tlx_launch example_env (padded_call\<lparr>p_key := (p_key padded_call)\<lparr>dim1 := 0\<rparr>\<rparr>))"
proof -
  have a: "\<not> isl (gdpa_forward_tlx_launch example_env padded_call)"
    using forward_launch_ignores_offset_values[where env = example_env and p = padded_call]
    by (simp add: padded_call_def)
  have b: "isl (gdpa_forward_tlx_launch example_env (padded_call\<lparr>p_key := (p_key padded_call)\<lparr>dim1 := 0\<rparr>\<rparr>))"
    using forward_launch_ignores_offset_values[where env = example_env
        and p = "padded_call\<lparr>p_key := (p_key padded_call)\<lparr>dim1 := 0\<rparr>\<rparr>"]
    by (simp add: padded_call_def)
  show ?thesis using a b by simp
qed

text \<open>
  Claim C8 says that a call whose offsets violate the sum condition fails in a check on
  the host side. It fails on the padded call: the query offsets \<open>[0, 1]\<close> sum to one
  row, the query tensor has two, and the host side reaches the launch, on one execution
  unit and with an output of two rows.
\<close>

theorem forward_unchecked_offsets_counterexample:
  "\<not> ragged_offsets_consistent (p_query_offset padded_call) (dim0 (p_query padded_call)) \<and>
   gdpa_forward_tlx_launch example_env padded_call =
     Inr (forward_kernel_args example_env padded_call 128, 1, 2)"
proof -
  have "\<not> ragged_offsets_consistent (p_query_offset padded_call) (dim0 (p_query padded_call))"
    by (simp add: ragged_offsets_consistent_def padded_call_def)
  moreover have "gdpa_forward_tlx_launch example_env padded_call =
     Inr (forward_kernel_args example_env padded_call 128, 1, 2)"
    using padded_launch[of example_env] padded_grid[of "\<lambda>a. 0"] by (simp add: example_env_empty)
  ultimately show ?thesis by simp
qed


end
